theory Spec2Isabelle
  imports
    Main
    "HOL-Library.Char_ord"
    "HOL-Library.List_Lexorder"
    "HOL-Library.Product_Lexorder"
begin

section \<open>Values, keys and rows\<close>

text \<open>
  A scalar read from a MySQL column, as the driver hands it to Python: \<open>None\<close>, an integer
  or a string. A primary-key tuple (\<open>PKTuple\<close> in \<open>src/sync.py\<close>) is a tuple of scalars
  and a row is the \<open>dict\<close> built by \<open>dict(row)\<close>: column name to value, in column order.
\<close>

datatype sqlval = Null | IntV int | StrV string

type_synonym PKTuple = "sqlval list"

type_synonym row = "(string \<times> sqlval) list"

text \<open>
  Python's \<open>sorted\<close> compares tuples lexicographically, integers by value and strings by
  code point. All values of one key column have one SQL type, so \<open>sorted\<close> only ever compares
  an integer with an integer or a string with a string; the order below extends that order
  to a total one on all scalars (\<open>Null\<close>, then integers, then strings).
\<close>

fun sqlval_rank :: "sqlval \<Rightarrow> nat \<times> int \<times> string" where
  "sqlval_rank Null = (0, 0, [])"
| "sqlval_rank (IntV i) = (1, i, [])"
| "sqlval_rank (StrV s) = (2, 0, s)"

lemma sqlval_rank_inject: "sqlval_rank a = sqlval_rank b \<Longrightarrow> a = b"
  by (cases a; cases b) simp_all

instantiation sqlval :: linorder
begin

definition less_eq_sqlval :: "sqlval \<Rightarrow> sqlval \<Rightarrow> bool" where
  "less_eq_sqlval a b \<longleftrightarrow> sqlval_rank a \<le> sqlval_rank b"

definition less_sqlval :: "sqlval \<Rightarrow> sqlval \<Rightarrow> bool" where
  "less_sqlval a b \<longleftrightarrow> sqlval_rank a < sqlval_rank b"

instance
proof
  fix x y z :: sqlval
  show "x < y \<longleftrightarrow> x \<le> y \<and> \<not> y \<le> x"
    unfolding less_eq_sqlval_def less_sqlval_def by (rule less_le_not_le)
  show "x \<le> x"
    unfolding less_eq_sqlval_def by simp
  show "x \<le> y \<Longrightarrow> y \<le> z \<Longrightarrow> x \<le> z"
    unfolding less_eq_sqlval_def by (rule order_trans)
  show "x \<le> y \<Longrightarrow> y \<le> x \<Longrightarrow> x = y"
    unfolding less_eq_sqlval_def by (rule sqlval_rank_inject) (rule antisym)
  show "x \<le> y \<or> y \<le> x"
    unfolding less_eq_sqlval_def by (rule linear)
qed

end

text \<open>Reading a column of a row; a column the row does not hold reads as \<open>NULL\<close>.\<close>

definition row_get :: "row \<Rightarrow> string \<Rightarrow> sqlval" where
  "row_get r c = (case map_of r c of None \<Rightarrow> Null | Some v \<Rightarrow> v)"

definition row_key :: "string list \<Rightarrow> row \<Rightarrow> PKTuple" where
  "row_key pk_column_names r = map (row_get r) pk_column_names"


section \<open>Strings\<close>

definition digit_char :: "nat \<Rightarrow> char" where
  "digit_char d = ''0123456789abcdef'' ! d"

fun str_nat :: "nat \<Rightarrow> string" where
  "str_nat n = (if n < 10 then [digit_char n] else str_nat (n div 10) @ [digit_char (n mod 10)])"

declare str_nat.simps [simp del]

definition str_int :: "int \<Rightarrow> string" where
  "str_int i = (if i < 0 then CHR ''-'' # str_nat (nat (- i)) else str_nat (nat i))"

text \<open>\<open>sep.join(parts)\<close>, and MySQL's \<open>CONCAT_WS\<close> on arguments that are never \<open>NULL\<close>.\<close>

fun join :: "string \<Rightarrow> string list \<Rightarrow> string" where
  "join sep [] = []"
| "join sep [x] = x"
| "join sep (x # y # ys) = x @ sep @ join sep (y # ys)"

text \<open>The ASCII characters that \<open>str.strip()\<close> removes at both ends.\<close>

definition is_space :: "char \<Rightarrow> bool" where
  "is_space c = (c \<in> set [CHR 0x09, CHR 0x0A, CHR 0x0B, CHR 0x0C, CHR 0x0D,
                          CHR 0x1C, CHR 0x1D, CHR 0x1E, CHR 0x1F, CHR 0x20])"

definition strip :: "string \<Rightarrow> string" where
  "strip s = rev (dropWhile is_space (rev (dropWhile is_space s)))"

text \<open>
  \<open>hashlib.md5(...).hexdigest()\<close> and MySQL's \<open>MD5(...)\<close>: the 128-bit digest written as
  32 lower-case hexadecimal digits. The digest function itself is a parameter; it gives
  the digest as its hexadecimal digits, the first one first (a shorter list is filled up
  with zeros, and of a longer one the first 32 count).
\<close>

fun hex_digits :: "nat list \<Rightarrow> string" where
  "hex_digits [] = []"
| "hex_digits (d # ds) = digit_char (d mod 16) # hex_digits ds"

definition hexdigest :: "(string \<Rightarrow> nat list) \<Rightarrow> string \<Rightarrow> string" where
  "hexdigest md5_fn s = hex_digits (take 32 (md5_fn s @ replicate 32 0))"

section \<open>Reflected schema and options\<close>

record column =
  col_name :: string
  col_computed :: bool

record table =
  tbl_name :: string
  tbl_columns :: "column list"
  tbl_primary_key :: "string list"

record SyncOptions =
  dry_run :: bool
  batch_size :: int
  disable_fk_checks :: bool
  use_insert_ignore :: bool

definition column_names :: "table \<Rightarrow> string list" where
  "column_names t = map col_name (tbl_columns t)"

text \<open>
  \<open>table.columns\<close> is a collection keyed by column name, so a name stands for one column:
  \<open>getattr(col, "computed", None)\<close> is read from the column of that name.
\<close>

definition is_computed :: "table \<Rightarrow> string \<Rightarrow> bool" where
  "is_computed t name =
     (case find (\<lambda>col. col_name col = name) (tbl_columns t) of
        None \<Rightarrow> False
      | Some col \<Rightarrow> col_computed col)"

definition get_primary_key_column_names :: "table \<Rightarrow> string list" where
  "get_primary_key_column_names t = tbl_primary_key t"

definition get_computed_column_names :: "table \<Rightarrow> string list" where
  "get_computed_column_names t = filter (is_computed t) (column_names t)"

definition get_updatable_column_names :: "table \<Rightarrow> string list \<Rightarrow> string list" where
  "get_updatable_column_names t pk_column_names =
     (let pk_set = set pk_column_names;
          computed_set = set (get_computed_column_names t)
      in filter (\<lambda>name. name \<notin> pk_set \<and> name \<notin> computed_set) (column_names t))"

section \<open>Batches\<close>

function chunks :: "nat \<Rightarrow> 'a list \<Rightarrow> 'a list list" where
  "chunks n xs = (if n = 0 \<or> xs = [] then [] else take n xs # chunks n (drop n xs))"
  by pat_completeness auto
termination
  by (relation "measure (\<lambda>(n, xs). length xs)") auto

declare chunks.simps [simp del]

datatype error = DBError | KeyError | IndexError | ValueError | SystemExit nat

text \<open>
  \<open>chunked(seq, size)\<close> walks \<open>range(0, len(seq), size)\<close>: a step of zero raises
  \<open>ValueError\<close> when the loop starts, a negative step gives an empty range and so no batch.
\<close>

definition chunked :: "'a list \<Rightarrow> int \<Rightarrow> error + 'a list list" where
  "chunked seq sz =
     (if sz = 0 then Inl ValueError
      else if sz < 0 then Inr []
      else Inr (chunks (nat sz) seq))"

section \<open>The two databases, the state files and the logs\<close>

text \<open>
  An engine is named by its URL. Every statement that the program sends to an engine is
  recorded in \<open>trace\<close>, oldest first, whether the server accepts it or not.
\<close>

datatype stmt =
    SelectPKs string string "string list"
  | SelectRows string string "PKTuple list"
  | SelectHashes string string "string list" "PKTuple list"
  | Insert string string bool "row list"
  | Upsert string string "string list" "row list"
  | Delete string string "PKTuple list"
  | SetFK string bool
  | ShowMasterStatus string
  | SetGroupConcatMaxLen string
  | BuildContentQuery string
  | RunContentQuery string
  | Reflect string
  | Connect string

datatype level = DEBUG | INFO | WARNING | ERROR

datatype log_entry =
    SkippingNoPrimaryKey string
  | FetchingPrimaryKeys string
  | PlannedChanges string nat nat
  | InsertingRows string int
  | CheckingUpdates string nat
  | DeletingRows string int
  | AppliedChanges string nat nat int
  | NotMySQLUrls
  | ProdPort5432
  | NoLocalChanges
  | DetectionSkipped error
  | Connecting
  | ReflectingSchemas
  | NoCommonTables
  | NoTablesRemain
  | TablesToSynchronize "string list"
  | UsingWorkers
  | TableError string error
  | SynchronizationComplete
  | SignatureNotSaved error

datatype print_line =
    Checking string string string
  | ChangesDetected string
  | SyncCompleteUpdatedSignatures string
  | ErrorRunningSync string error

text \<open>
  The world the program runs in. The first group of fields is state: the rows of every
  table of every server, the \<open>FOREIGN_KEY_CHECKS\<close> variable of the session of every pooled
  connection of every engine, the state files, the statements sent, for each of them the
  connection that served it with the value \<open>FOREIGN_KEY_CHECKS\<close> had in that session, and the
  lines logged or printed. The second group is the environment, which the program cannot
  change: which statements a server rejects and when, which pooled connection an engine
  hands to the statement sent at a given position of the trace, which files cannot be read
  or written,
  the schema that reflection reports, the binary-log coordinates a server reports, the MD5
  digest, SQLAlchemy's URL parser (dialect name and port) and the \<open>DATABASE_URL\<close> variable.
\<close>

record world =
  rows_of :: "string \<Rightarrow> string \<Rightarrow> row list"
  fk_checks :: "string \<Rightarrow> nat \<Rightarrow> bool"
  files :: "string \<rightharpoonup> string"
  state_dir :: bool
  trace :: "stmt list"
  served :: "(nat \<times> bool) list"
  logs :: "(level \<times> log_entry) list"
  stdout :: "print_line list"
  fault_at :: "nat \<Rightarrow> stmt \<Rightarrow> bool"
  checkout :: "string \<Rightarrow> nat \<Rightarrow> nat"
  unreadable :: "string \<Rightarrow> bool"
  unwritable :: "string \<Rightarrow> bool"
  reflected :: "string \<Rightarrow> table list"
  master_status :: "string \<Rightarrow> (string \<times> nat) option"
  md5 :: "string \<Rightarrow> nat list"
  make_url :: "string \<Rightarrow> (string option \<times> int option) option"
  default_database_url :: "string option"

definition logging :: "level \<Rightarrow> log_entry \<Rightarrow> world \<Rightarrow> world" where
  "logging lv entry w = w\<lparr>logs := logs w @ [(lv, entry)]\<rparr>"

text \<open>
  Whether a statement fails may depend on the moment it is sent, which is the number of
  statements sent before it: \<open>fault_at w n s\<close> says that statement \<open>s\<close>, sent after \<open>n\<close>
  others, is rejected, and \<open>faulty w s\<close> that it is rejected when it is sent now.
\<close>

definition faulty :: "world \<Rightarrow> stmt \<Rightarrow> bool" where
  "faulty w s = fault_at w (length (trace w)) s"

text \<open>The engine (named by its URL) that a statement is sent to.\<close>

fun engine_of :: "stmt \<Rightarrow> string" where
  "engine_of (SelectPKs engine name pks) = engine"
| "engine_of (SelectRows engine name keys) = engine"
| "engine_of (SelectHashes engine name data_cols keys) = engine"
| "engine_of (Insert engine name ignore payload) = engine"
| "engine_of (Upsert engine name update_cols payload) = engine"
| "engine_of (Delete engine name keys) = engine"
| "engine_of (SetFK engine enabled) = engine"
| "engine_of (ShowMasterStatus engine) = engine"
| "engine_of (SetGroupConcatMaxLen engine) = engine"
| "engine_of (BuildContentQuery engine) = engine"
| "engine_of (RunContentQuery engine) = engine"
| "engine_of (Reflect engine) = engine"
| "engine_of (Connect engine) = engine"

text \<open>
  Sending a statement. Every helper of \<open>sync.py\<close> runs its statement inside a
  \<open>with engine.connect()\<close> or \<open>with engine.begin()\<close> block of its own: the connection is
  checked out of the engine's pool for that one statement and given back at the end of the
  block. Which pooled connection a check-out returns is the pool's choice (it depends on
  which connections other threads hold at that moment); \<open>checkout\<close> stands for it. The
  statement is recorded together with the connection that serves it and the value of
  \<open>FOREIGN_KEY_CHECKS\<close> in the session of that connection, and the server either rejects it
  (the driver raises) or accepts it.
\<close>

definition execute :: "stmt \<Rightarrow> world \<Rightarrow> world \<times> (error + unit)" where
  "execute s w =
     (let conn = checkout w (engine_of s) (length (trace w));
          w' = w\<lparr>trace := trace w @ [s],
                 served := served w @ [(conn, fk_checks w (engine_of s) conn)]\<rparr>
      in if faulty w s then (w', Inl DBError) else (w', Inr ()))"

definition set_rows :: "string \<Rightarrow> string \<Rightarrow> row list \<Rightarrow> world \<Rightarrow> world" where
  "set_rows engine name rs w = w\<lparr>rows_of := (rows_of w)(engine := (rows_of w engine)(name := rs))\<rparr>"

section \<open>Reading and writing rows\<close>

text \<open>
  The \<open>WHERE\<close> condition that the four by-key functions build. \<open>table.c[name]\<close> raises
  \<open>KeyError\<close> for a column the reflected table does not have; with a single key column
  the condition is \<open>column IN (pk[0] for pk in pk_values)\<close>, otherwise the tuple of key
  columns is compared with the tuples.
\<close>

definition pk_condition :: "table \<Rightarrow> string list \<Rightarrow> PKTuple list \<Rightarrow> error + (row \<Rightarrow> bool)" where
  "pk_condition t pk_column_names pk_values =
     (if \<not> set pk_column_names \<subseteq> set (column_names t) then Inl KeyError
      else if length pk_column_names = 1 then
        (if [] \<in> set pk_values then Inl IndexError
         else Inr (\<lambda>r. row_get r (hd pk_column_names) \<in> set (map hd pk_values)))
      else Inr (\<lambda>r. row_key pk_column_names r \<in> set pk_values))"

definition fetch_pk_values :: "string \<Rightarrow> table \<Rightarrow> string list \<Rightarrow> world \<Rightarrow> world \<times> (error + PKTuple set)" where
  "fetch_pk_values engine t pk_column_names w =
     (if pk_column_names = [] then (w, Inr {})
      else if \<not> set pk_column_names \<subseteq> set (column_names t) then (w, Inl KeyError)
      else case execute (SelectPKs engine (tbl_name t) pk_column_names) w of
             (w', Inl e) \<Rightarrow> (w', Inl e)
           | (w', Inr _) \<Rightarrow>
               (w', Inr (set (map (row_key pk_column_names) (rows_of w' engine (tbl_name t))))))"

text \<open>\<open>select(table)\<close> reads the columns of the reflected table, in their order.\<close>

definition select_columns :: "table \<Rightarrow> row \<Rightarrow> row" where
  "select_columns t r = map (\<lambda>c. (c, row_get r c)) (column_names t)"

definition fetch_rows_by_pks :: "string \<Rightarrow> table \<Rightarrow> string list \<Rightarrow> PKTuple list \<Rightarrow> world \<Rightarrow> world \<times> (error + row list)" where
  "fetch_rows_by_pks engine t pk_column_names pk_values w =
     (if pk_values = [] then (w, Inr [])
      else case pk_condition t pk_column_names pk_values of
             Inl e \<Rightarrow> (w, Inl e)
           | Inr condition \<Rightarrow>
               (case execute (SelectRows engine (tbl_name t) pk_values) w of
                  (w', Inl e) \<Rightarrow> (w', Inl e)
                | (w', Inr _) \<Rightarrow>
                    (w', Inr (map (select_columns t) (filter condition (rows_of w' engine (tbl_name t)))))))"

text \<open>
  What the server does with an accepted \<open>INSERT\<close>. With \<open>IGNORE\<close> a row whose primary key
  is already in the table is skipped; without it such a row makes the whole statement fail
  and the transaction of \<open>engine.begin()\<close> is rolled back. A table without a primary key
  takes every row. A row is stored as the payload holds it: a generated column, which the
  payload does not carry, is computed by a real server from an expression that the
  reflected schema of this model does not hold, and reads as \<open>NULL\<close> here.
\<close>

definition key_present :: "string list \<Rightarrow> row \<Rightarrow> row list \<Rightarrow> bool" where
  "key_present pk r rs = (pk \<noteq> [] \<and> row_key pk r \<in> set (map (row_key pk) rs))"

fun insert_ignore :: "string list \<Rightarrow> row list \<Rightarrow> row list \<Rightarrow> row list" where
  "insert_ignore pk [] rs = rs"
| "insert_ignore pk (r # payload) rs =
     insert_ignore pk payload (if key_present pk r rs then rs else rs @ [r])"

fun insert_strict :: "string list \<Rightarrow> row list \<Rightarrow> row list \<Rightarrow> row list option" where
  "insert_strict pk [] rs = Some rs"
| "insert_strict pk (r # payload) rs =
     (if key_present pk r rs then None else insert_strict pk payload (rs @ [r]))"

definition insert_rows :: "string \<Rightarrow> table \<Rightarrow> row list \<Rightarrow> bool \<Rightarrow> world \<Rightarrow> world \<times> (error + nat)" where
  "insert_rows engine t rows ignore w =
     (if rows = [] then (w, Inr 0)
      else
        let allowed_cols = filter (\<lambda>name. \<not> is_computed t name) (column_names t);
            filtered_rows = map (filter (\<lambda>(k, v). k \<in> set allowed_cols)) rows
        in case execute (Insert engine (tbl_name t) ignore filtered_rows) w of
             (w', Inl e) \<Rightarrow> (w', Inl e)
           | (w', Inr _) \<Rightarrow>
               (let old = rows_of w' engine (tbl_name t)
                in if ignore
                   then (set_rows engine (tbl_name t) (insert_ignore (tbl_primary_key t) filtered_rows old) w',
                         Inr (length filtered_rows))
                   else (case insert_strict (tbl_primary_key t) filtered_rows old of
                           None \<Rightarrow> (w', Inl DBError)
                         | Some new \<Rightarrow> (set_rows engine (tbl_name t) new w', Inr (length filtered_rows)))))"

definition delete_rows_by_pks :: "string \<Rightarrow> table \<Rightarrow> string list \<Rightarrow> PKTuple list \<Rightarrow> world \<Rightarrow> world \<times> (error + int)" where
  "delete_rows_by_pks engine t pk_column_names pk_values w =
     (if pk_values = [] then (w, Inr 0)
      else case pk_condition t pk_column_names pk_values of
             Inl e \<Rightarrow> (w, Inl e)
           | Inr condition \<Rightarrow>
               (case execute (Delete engine (tbl_name t) pk_values) w of
                  (w', Inl e) \<Rightarrow> (w', Inl e)
                | (w', Inr _) \<Rightarrow>
                    (let old = rows_of w' engine (tbl_name t);
                         deleted = int (length (filter condition old))
                     in (set_rows engine (tbl_name t) (filter (\<lambda>r. \<not> condition r) old) w',
                         Inr (if deleted \<ge> 0 then deleted else 0)))))"

section \<open>Row fingerprints\<close>

text \<open>The null marker U+2400, as the bytes of its UTF-8 encoding.\<close>

definition null_token :: string where
  "null_token = [CHR 0xE2, CHR 0x90, CHR 0x80]"

text \<open>\<open>CAST(column AS CHAR)\<close>: \<open>NULL\<close> stays \<open>NULL\<close>.\<close>

fun cast_string :: "sqlval \<Rightarrow> string option" where
  "cast_string Null = None"
| "cast_string (IntV i) = Some (str_int i)"
| "cast_string (StrV s) = Some s"

definition coalesce :: "string option \<Rightarrow> string \<Rightarrow> string" where
  "coalesce v d = (case v of None \<Rightarrow> d | Some s \<Rightarrow> s)"

text \<open>The value of the expression that \<open>build_row_fingerprint_expr\<close> builds, on one row.\<close>

definition build_row_fingerprint_expr :: "(string \<Rightarrow> nat list) \<Rightarrow> string list \<Rightarrow> row \<Rightarrow> string" where
  "build_row_fingerprint_expr md5_fn data_column_names r =
     (let parts = map (\<lambda>name. coalesce (cast_string (row_get r name)) null_token) data_column_names
      in if parts = [] then hexdigest md5_fn []
         else hexdigest md5_fn (join ''|'' parts))"

text \<open>
  The dictionary that the loop of \<open>fetch_hashes_for_pks\<close> fills, as the list of its
  assignments \<open>hashes[key] = h\<close> in row order; \<open>hashes.get(pk)\<close> reads the last assignment
  to the key.
\<close>

fun row_hashes :: "(string \<Rightarrow> nat list) \<Rightarrow> string list \<Rightarrow> string list \<Rightarrow> row list \<Rightarrow> (PKTuple \<times> string) list" where
  "row_hashes md5_fn pk_column_names data_column_names [] = []"
| "row_hashes md5_fn pk_column_names data_column_names (r # rs) =
     (row_key pk_column_names r, build_row_fingerprint_expr md5_fn data_column_names r)
       # row_hashes md5_fn pk_column_names data_column_names rs"

definition dict_get :: "('k \<times> 'v) list \<Rightarrow> 'k \<Rightarrow> 'v option" where
  "dict_get d k = map_of (rev d) k"

definition fetch_hashes_for_pks :: "string \<Rightarrow> table \<Rightarrow> string list \<Rightarrow> string list \<Rightarrow> PKTuple list \<Rightarrow> world \<Rightarrow> world \<times> (error + (PKTuple \<times> string) list)" where
  "fetch_hashes_for_pks engine t pk_column_names data_column_names pk_values w =
     (if pk_values = [] then (w, Inr [])
      else case pk_condition t pk_column_names pk_values of
             Inl e \<Rightarrow> (w, Inl e)
           | Inr condition \<Rightarrow>
               if \<not> set data_column_names \<subseteq> set (column_names t) then (w, Inl KeyError)
               else
                 (case execute (SelectHashes engine (tbl_name t) data_column_names pk_values) w of
                    (w', Inl e) \<Rightarrow> (w', Inl e)
                  | (w', Inr _) \<Rightarrow>
                      (w', Inr (row_hashes (md5 w') pk_column_names data_column_names
                                  (filter condition (rows_of w' engine (tbl_name t)))))))"

text \<open>
  What the server does with an accepted \<open>INSERT ... ON DUPLICATE KEY UPDATE\<close>: a row whose
  primary key is in the table overwrites the listed columns of the stored row with its own
  values, any other row is inserted.
\<close>

definition update_row :: "string list \<Rightarrow> row \<Rightarrow> row \<Rightarrow> row" where
  "update_row update_column_names new old =
     map (\<lambda>(c, v). if c \<in> set update_column_names then (c, row_get new c) else (c, v)) old"

definition upsert_one :: "string list \<Rightarrow> string list \<Rightarrow> row \<Rightarrow> row list \<Rightarrow> row list" where
  "upsert_one pk update_column_names r rs =
     (if key_present pk r rs
      then map (\<lambda>old. if row_key pk old = row_key pk r then update_row update_column_names r old else old) rs
      else rs @ [r])"

definition upsert_rows :: "string \<Rightarrow> table \<Rightarrow> row list \<Rightarrow> string list \<Rightarrow> world \<Rightarrow> world \<times> (error + nat)" where
  "upsert_rows engine t rows update_column_names w =
     (if rows = [] then (w, Inr 0)
      else if \<not> set update_column_names \<subseteq> set (column_names t) then (w, Inl KeyError)
      else case execute (Upsert engine (tbl_name t) update_column_names rows) w of
             (w', Inl e) \<Rightarrow> (w', Inl e)
           | (w', Inr _) \<Rightarrow>
               (set_rows engine (tbl_name t)
                  (fold (upsert_one (tbl_primary_key t) update_column_names) rows
                     (rows_of w' engine (tbl_name t))) w',
                Inr (length rows)))"

text \<open>
  \<open>set_foreign_key_checks\<close> sends \<open>SET FOREIGN_KEY_CHECKS = 0\<close> or \<open>= 1\<close> inside a
  \<open>with engine.begin()\<close> block of its own. The statement sets the variable of the session of
  the connection that block was given, and of no other.
\<close>

definition set_foreign_key_checks :: "string \<Rightarrow> bool \<Rightarrow> world \<Rightarrow> world \<times> (error + unit)" where
  "set_foreign_key_checks engine enabled w =
     (case execute (SetFK engine enabled) w of
        (w', Inl e) \<Rightarrow> (w', Inl e)
      | (w', Inr _) \<Rightarrow>
          (let conn = checkout w engine (length (trace w))
           in (w'\<lparr>fk_checks := (fk_checks w')(engine := (fk_checks w' engine)(conn := enabled))\<rparr>,
               Inr ())))"

section \<open>The row diff of \<open>sync_table\<close>\<close>

text \<open>
  Lines 391 to 393 of \<open>sync_table\<close>:
  \<^verbatim>\<open>to_insert = sorted(list(local_pks - prod_pks))\<close>,
  \<^verbatim>\<open>to_delete = sorted(list(prod_pks - local_pks))\<close>,
  \<^verbatim>\<open>overlap = sorted(list(local_pks & prod_pks))\<close>.
\<close>

definition diff_keys :: "PKTuple set \<Rightarrow> PKTuple set \<Rightarrow> PKTuple list \<times> PKTuple list \<times> PKTuple list" where
  "diff_keys local_pks prod_pks =
     (sorted_list_of_set (local_pks - prod_pks),
      sorted_list_of_set (prod_pks - local_pks),
      sorted_list_of_set (local_pks \<inter> prod_pks))"

section \<open>Synchronising one table\<close>

text \<open>The insert loop of \<open>sync_table\<close> (lines 413 to 421), one batch after the other.\<close>

fun insert_batches :: "string \<Rightarrow> string \<Rightarrow> table \<Rightarrow> table \<Rightarrow> string list \<Rightarrow> bool \<Rightarrow> PKTuple list list \<Rightarrow> nat \<Rightarrow> world \<Rightarrow> world \<times> (error + nat)" where
  "insert_batches local_engine prod_engine local_table prod_table pks ignore [] total_inserted w =
     (w, Inr total_inserted)"
| "insert_batches local_engine prod_engine local_table prod_table pks ignore (batch # rest) total_inserted w =
     (case fetch_rows_by_pks local_engine local_table pks batch w of
        (w1, Inl e) \<Rightarrow> (w1, Inl e)
      | (w1, Inr rows) \<Rightarrow>
          (case insert_rows prod_engine prod_table rows ignore w1 of
             (w2, Inl e) \<Rightarrow> (w2, Inl e)
           | (w2, Inr inserted) \<Rightarrow>
               insert_batches local_engine prod_engine local_table prod_table pks ignore rest
                 (total_inserted + inserted) w2))"

text \<open>
  The body of the update loop (lines 429 to 456) on one batch; it gives the number of rows
  that the round adds to \<open>total_updated\<close>, which is 0 when the round ends at \<open>continue\<close>.
\<close>

definition update_batch :: "string \<Rightarrow> string \<Rightarrow> table \<Rightarrow> table \<Rightarrow> string list \<Rightarrow> string list \<Rightarrow> PKTuple list \<Rightarrow> world \<Rightarrow> world \<times> (error + nat)" where
  "update_batch local_engine prod_engine local_table prod_table pks data_cols batch w =
     (case fetch_hashes_for_pks local_engine local_table pks data_cols batch w of
        (w1, Inl e) \<Rightarrow> (w1, Inl e)
      | (w1, Inr local_hashes) \<Rightarrow>
          (case fetch_hashes_for_pks prod_engine prod_table pks data_cols batch w1 of
             (w2, Inl e) \<Rightarrow> (w2, Inl e)
           | (w2, Inr prod_hashes) \<Rightarrow>
               (let changed_pks = filter (\<lambda>pk. dict_get local_hashes pk \<noteq> dict_get prod_hashes pk) batch
                in if changed_pks = [] then (w2, Inr 0)
                   else
                     (case fetch_rows_by_pks local_engine local_table pks changed_pks w2 of
                        (w3, Inl e) \<Rightarrow> (w3, Inl e)
                      | (w3, Inr changed_rows) \<Rightarrow>
                          (let computed_cols = set (get_computed_column_names local_table);
                               sanitized_rows = map (filter (\<lambda>(k, v). k \<notin> computed_cols)) changed_rows
                           in upsert_rows prod_engine prod_table sanitized_rows data_cols w3)))))"

text \<open>The update loop (lines 428 to 456).\<close>

fun update_batches :: "string \<Rightarrow> string \<Rightarrow> table \<Rightarrow> table \<Rightarrow> string list \<Rightarrow> string list \<Rightarrow> PKTuple list list \<Rightarrow> nat \<Rightarrow> world \<Rightarrow> world \<times> (error + nat)" where
  "update_batches local_engine prod_engine local_table prod_table pks data_cols [] total_updated w =
     (w, Inr total_updated)"
| "update_batches local_engine prod_engine local_table prod_table pks data_cols (batch # rest) total_updated w =
     (case update_batch local_engine prod_engine local_table prod_table pks data_cols batch w of
        (w1, Inl e) \<Rightarrow> (w1, Inl e)
      | (w1, Inr updated) \<Rightarrow>
          update_batches local_engine prod_engine local_table prod_table pks data_cols rest
            (total_updated + updated) w1)"

text \<open>The delete loop (lines 461 to 465).\<close>

fun delete_batches :: "string \<Rightarrow> table \<Rightarrow> string list \<Rightarrow> PKTuple list list \<Rightarrow> int \<Rightarrow> world \<Rightarrow> world \<times> (error + int)" where
  "delete_batches prod_engine prod_table pks [] total_deleted w = (w, Inr total_deleted)"
| "delete_batches prod_engine prod_table pks (batch # rest) total_deleted w =
     (case delete_rows_by_pks prod_engine prod_table pks batch w of
        (w1, Inl e) \<Rightarrow> (w1, Inl e)
      | (w1, Inr deleted) \<Rightarrow>
          delete_batches prod_engine prod_table pks rest (total_deleted + deleted) w1)"

definition insert_phase :: "string \<Rightarrow> string \<Rightarrow> table \<Rightarrow> table \<Rightarrow> string list \<Rightarrow> SyncOptions \<Rightarrow> PKTuple list \<Rightarrow> world \<Rightarrow> world \<times> (error + nat)" where
  "insert_phase local_engine prod_engine local_table prod_table pks options to_insert w =
     (if to_insert = [] then (w, Inr 0)
      else
        let w1 = logging INFO (InsertingRows (tbl_name local_table) (batch_size options)) w
        in case chunked to_insert (batch_size options) of
             Inl e \<Rightarrow> (w1, Inl e)
           | Inr batches \<Rightarrow>
               insert_batches local_engine prod_engine local_table prod_table pks
                 (use_insert_ignore options) batches 0 w1)"

definition update_phase :: "string \<Rightarrow> string \<Rightarrow> table \<Rightarrow> table \<Rightarrow> string list \<Rightarrow> SyncOptions \<Rightarrow> PKTuple list \<Rightarrow> world \<Rightarrow> world \<times> (error + nat)" where
  "update_phase local_engine prod_engine local_table prod_table pks options overlap w =
     (if overlap = [] then (w, Inr 0)
      else
        let data_cols = get_updatable_column_names local_table pks
        in if data_cols = [] then (w, Inr 0)
           else
             let w1 = logging INFO (CheckingUpdates (tbl_name local_table) (length overlap)) w
             in case chunked overlap (batch_size options) of
                  Inl e \<Rightarrow> (w1, Inl e)
                | Inr batches \<Rightarrow>
                    update_batches local_engine prod_engine local_table prod_table pks data_cols
                      batches 0 w1)"

definition delete_phase :: "string \<Rightarrow> table \<Rightarrow> table \<Rightarrow> string list \<Rightarrow> SyncOptions \<Rightarrow> PKTuple list \<Rightarrow> world \<Rightarrow> world \<times> (error + int)" where
  "delete_phase prod_engine local_table prod_table pks options to_delete w =
     (if to_delete = [] then (w, Inr 0)
      else
        let w1 = logging INFO (DeletingRows (tbl_name local_table) (batch_size options)) w
        in case chunked to_delete (batch_size options) of
             Inl e \<Rightarrow> (w1, Inl e)
           | Inr batches \<Rightarrow> delete_batches prod_engine prod_table pks batches 0 w1)"

text \<open>The body of the \<open>try\<close> block of \<open>sync_table\<close> (lines 409 to 473).\<close>

definition apply_changes :: "string \<Rightarrow> string \<Rightarrow> table \<Rightarrow> table \<Rightarrow> string list \<Rightarrow> SyncOptions \<Rightarrow> PKTuple list \<Rightarrow> PKTuple list \<Rightarrow> PKTuple list \<Rightarrow> world \<Rightarrow> world \<times> (error + unit)" where
  "apply_changes local_engine prod_engine local_table prod_table pks options to_insert to_delete overlap w =
     (case insert_phase local_engine prod_engine local_table prod_table pks options to_insert w of
        (w1, Inl e) \<Rightarrow> (w1, Inl e)
      | (w1, Inr total_inserted) \<Rightarrow>
          (case update_phase local_engine prod_engine local_table prod_table pks options overlap w1 of
             (w2, Inl e) \<Rightarrow> (w2, Inl e)
           | (w2, Inr total_updated) \<Rightarrow>
               (case delete_phase prod_engine local_table prod_table pks options to_delete w2 of
                  (w3, Inl e) \<Rightarrow> (w3, Inl e)
                | (w3, Inr total_deleted) \<Rightarrow>
                    (logging INFO (AppliedChanges (tbl_name local_table) total_inserted total_updated
                                     total_deleted) w3,
                     Inr ()))))"

text \<open>
  \<open>sync_table\<close>. The \<open>finally\<close> clause runs after the body whether the body raised or not;
  an exception raised inside it replaces the one of the body.
\<close>

definition sync_table :: "string \<Rightarrow> string \<Rightarrow> table \<Rightarrow> table \<Rightarrow> SyncOptions \<Rightarrow> world \<Rightarrow> world \<times> (error + unit)" where
  "sync_table local_engine prod_engine local_table prod_table options w =
     (let table_name = tbl_name local_table;
          pk_column_names = get_primary_key_column_names local_table
      in if pk_column_names = [] then (logging WARNING (SkippingNoPrimaryKey table_name) w, Inr ())
         else
           (case fetch_pk_values local_engine local_table pk_column_names
                   (logging INFO (FetchingPrimaryKeys table_name) w) of
              (w1, Inl e) \<Rightarrow> (w1, Inl e)
            | (w1, Inr local_pks) \<Rightarrow>
                (case fetch_pk_values prod_engine prod_table pk_column_names w1 of
                   (w2, Inl e) \<Rightarrow> (w2, Inl e)
                 | (w2, Inr prod_pks) \<Rightarrow>
                     (case diff_keys local_pks prod_pks of
                        (to_insert, to_delete, overlap) \<Rightarrow>
                          (let w3 = logging INFO (PlannedChanges table_name (length to_insert)
                                                    (length to_delete)) w2
                           in if dry_run options then (w3, Inr ())
                              else
                                (case (if disable_fk_checks options
                                       then set_foreign_key_checks prod_engine False w3
                                       else (w3, Inr ())) of
                                   (w4, Inl e) \<Rightarrow> (w4, Inl e)
                                 | (w4, Inr _) \<Rightarrow>
                                     (case apply_changes local_engine prod_engine local_table prod_table
                                             pk_column_names options to_insert to_delete overlap w4 of
                                        (w5, outcome) \<Rightarrow>
                                          if disable_fk_checks options
                                          then (case set_foreign_key_checks prod_engine True w5 of
                                                  (w6, Inl e) \<Rightarrow> (w6, Inl e)
                                                | (w6, Inr _) \<Rightarrow> (w6, outcome))
                                          else (w5, outcome))))))))"

section \<open>Change signatures (\<open>utils/change_detector.py\<close>)\<close>

text \<open>
  The state file of a database: named by the first 20 hexadecimal digits of the MD5 digest
  of the URL, in the directory \<open>.state\<close>, which the call creates.
\<close>

definition get_state_file_for_database :: "string \<Rightarrow> world \<Rightarrow> world \<times> string" where
  "get_state_file_for_database database_url w =
     (let md5_hash = hexdigest (md5 w) database_url;
          state_filename = ''.sync_db_'' @ take 20 md5_hash @ ''.state''
      in (w\<lparr>state_dir := True\<rparr>, ''.state/'' @ state_filename))"

text \<open>
  \<open>get_binlog_signature\<close>: the connection is opened outside the \<open>try\<close> block, so a failure
  to connect propagates; a rejected \<open>SHOW MASTER STATUS\<close> or an empty answer gives the empty
  string.
\<close>

definition get_binlog_signature :: "string \<Rightarrow> world \<Rightarrow> world \<times> (error + string)" where
  "get_binlog_signature engine w =
     (case execute (Connect engine) w of
        (w1, Inl e) \<Rightarrow> (w1, Inl e)
      | (w1, Inr _) \<Rightarrow>
          (case execute (ShowMasterStatus engine) w1 of
             (w2, Inl e) \<Rightarrow> (w2, Inr [])
           | (w2, Inr _) \<Rightarrow>
               (case master_status w2 engine of
                  None \<Rightarrow> (w2, Inr [])
                | Some (file_name, position) \<Rightarrow>
                    (w2, Inr (''binlog:'' @ file_name @ '':'' @ str_nat position)))))"

text \<open>
  The answer of the dynamic query of \<open>content_dynamic_signature\<close>: one line per table that
  has columns, ordered by table name, with the sum over the rows of the byte length of the
  concatenated column values (\<open>NULL\<close> read as the empty string); the sum over no rows is
  \<open>NULL\<close>.
\<close>

definition row_octets :: "table \<Rightarrow> row \<Rightarrow> nat" where
  "row_octets t r = length (concat (map (\<lambda>c. coalesce (cast_string (row_get r c)) []) (column_names t)))"

definition content_results :: "string \<Rightarrow> world \<Rightarrow> (string \<times> nat option) list" where
  "content_results engine w =
     map (\<lambda>t. (tbl_name t,
               if rows_of w engine (tbl_name t) = [] then None
               else Some (sum_list (map (row_octets t) (rows_of w engine (tbl_name t))))))
       (sort_key tbl_name (filter (\<lambda>t. tbl_columns t \<noteq> []) (reflected w engine)))"

definition content_parts :: "(string \<times> nat option) list \<Rightarrow> string list" where
  "content_parts results =
     map (\<lambda>(table_name, total). table_name @ '':'' @ str_nat (case total of None \<Rightarrow> 0 | Some n \<Rightarrow> n))
       results"

definition content_dynamic_signature :: "string \<Rightarrow> world \<Rightarrow> world \<times> string" where
  "content_dynamic_signature engine w =
     (case execute (SetGroupConcatMaxLen engine) w of
        (w1, Inl e) \<Rightarrow> (w1, [])
      | (w1, Inr _) \<Rightarrow>
          (case execute (BuildContentQuery engine) w1 of
             (w2, Inl e) \<Rightarrow> (w2, [])
           | (w2, Inr _) \<Rightarrow>
               if filter (\<lambda>t. tbl_columns t \<noteq> []) (reflected w2 engine) = [] then (w2, [])
               else
                 (case execute (RunContentQuery engine) w2 of
                    (w3, Inl e) \<Rightarrow> (w3, [])
                  | (w3, Inr _) \<Rightarrow>
                      (w3, ''content:'' @
                             hexdigest (md5 w3)
                               (join [CHR 0x0A] (content_parts (content_results engine w3)))))))"

definition load_last_signature :: "string option \<Rightarrow> world \<Rightarrow> world \<times> (error + string)" where
  "load_last_signature state_file w =
     (case (case state_file of
              Some f \<Rightarrow> (w, Inr f)
            | None \<Rightarrow>
                (case default_database_url w of
                   None \<Rightarrow> (w, Inl ValueError)
                 | Some url \<Rightarrow>
                     if url = [] then (w, Inl ValueError)
                     else (case get_state_file_for_database url w of (w', f) \<Rightarrow> (w', Inr f)))) of
        (w1, Inl e) \<Rightarrow> (w1, Inl e)
      | (w1, Inr f) \<Rightarrow>
          (case files w1 f of
             Some content \<Rightarrow> (w1, Inr (if unreadable w1 f then [] else strip content))
           | None \<Rightarrow> (w1, Inr [])))"

definition save_current_signature :: "string \<Rightarrow> string option \<Rightarrow> world \<Rightarrow> world \<times> (error + unit)" where
  "save_current_signature sig state_file w =
     (case (case state_file of
              Some f \<Rightarrow> (w, Inr f)
            | None \<Rightarrow>
                (case default_database_url w of
                   None \<Rightarrow> (w, Inl ValueError)
                 | Some url \<Rightarrow>
                     if url = [] then (w, Inl ValueError)
                     else (case get_state_file_for_database url w of (w', f) \<Rightarrow> (w', Inr f)))) of
        (w1, Inl e) \<Rightarrow> (w1, Inl e)
      | (w1, Inr f) \<Rightarrow>
          (if unwritable w1 f then (w1, Inr ())
           else (w1\<lparr>files := (files w1)(f \<mapsto> sig)\<rparr>, Inr ())))"

definition get_quick_signature :: "string \<Rightarrow> string option \<Rightarrow> world \<Rightarrow> world \<times> (error + string)" where
  "get_quick_signature database_url signature_type w =
     (if signature_type = Some ''content''
      then (case content_dynamic_signature database_url w of (w', sig) \<Rightarrow> (w', Inr sig))
      else if signature_type = Some ''binlog'' then get_binlog_signature database_url w
      else
        (case get_binlog_signature database_url w of
           (w1, Inl e) \<Rightarrow> (w1, Inl e)
         | (w1, Inr sig) \<Rightarrow>
             if sig \<noteq> [] then (w1, Inr sig)
             else
               (case content_dynamic_signature database_url w1 of
                  (w2, sig2) \<Rightarrow> if sig2 \<noteq> [] then (w2, Inr sig2) else (w2, Inl ValueError))))"

definition has_database_changes :: "string \<Rightarrow> string option \<Rightarrow> string option \<Rightarrow> world \<Rightarrow> world \<times> (error + bool)" where
  "has_database_changes database_url state_file signature_type w =
     (case (case state_file of
              None \<Rightarrow> get_state_file_for_database database_url w
            | Some f \<Rightarrow> (w, f)) of
        (w1, f) \<Rightarrow>
          (case get_quick_signature database_url signature_type w1 of
             (w2, Inl e) \<Rightarrow> (w2, Inl e)
           | (w2, Inr sig) \<Rightarrow>
               (case load_last_signature (Some f) w2 of
                  (w3, Inl e) \<Rightarrow> (w3, Inl e)
                | (w3, Inr last_sig) \<Rightarrow> (w3, Inr (sig \<noteq> [] \<and> sig \<noteq> last_sig)))))"

definition write_current_signature :: "string \<Rightarrow> string option \<Rightarrow> world \<Rightarrow> world \<times> (error + unit)" where
  "write_current_signature database_url state_file w =
     (case (case state_file of
              None \<Rightarrow> get_state_file_for_database database_url w
            | Some f \<Rightarrow> (w, f)) of
        (w1, f) \<Rightarrow>
          (case get_quick_signature database_url None w1 of
             (w2, Inl e) \<Rightarrow> (w2, Inl e)
           | (w2, Inr sig) \<Rightarrow>
               if sig \<noteq> [] then save_current_signature sig (Some f) w2 else (w2, Inr ())))"

section \<open>Synchronising a database (\<open>sync_mysql\<close>)\<close>

definition is_mysql_url :: "string \<Rightarrow> world \<Rightarrow> bool" where
  "is_mysql_url url w =
     (case make_url w url of
        None \<Rightarrow> False
      | Some (None, port) \<Rightarrow> False
      | Some (Some dialect_name, port) \<Rightarrow> take 5 dialect_name = ''mysql'')"

definition get_port :: "string \<Rightarrow> world \<Rightarrow> int option" where
  "get_port url w = (case make_url w url of None \<Rightarrow> None | Some (dialect_name, port) \<Rightarrow> port)"

definition load_metadata :: "string \<Rightarrow> world \<Rightarrow> world \<times> (error + table list)" where
  "load_metadata engine w =
     (case execute (Reflect engine) w of
        (w', Inl e) \<Rightarrow> (w', Inl e)
      | (w', Inr _) \<Rightarrow> (w', Inr (reflected w' engine)))"

definition get_common_table_names :: "table list \<Rightarrow> table list \<Rightarrow> string list" where
  "get_common_table_names local_meta prod_meta =
     sorted_list_of_set (set (map tbl_name local_meta) \<inter> set (map tbl_name prod_meta))"

definition filter_tables :: "string list \<Rightarrow> string list option \<Rightarrow> string list option \<Rightarrow> string list" where
  "filter_tables tables include exclude =
     (let selected =
            (case include of
               None \<Rightarrow> tables
             | Some names \<Rightarrow>
                 if names = [] then tables
                 else filter (\<lambda>t. t \<in> set (map strip (filter (\<lambda>n. strip n \<noteq> []) names))) tables)
      in case exclude of
           None \<Rightarrow> selected
         | Some names \<Rightarrow>
             if names = [] then selected
             else filter (\<lambda>t. t \<notin> set (map strip (filter (\<lambda>n. strip n \<noteq> []) names))) selected)"

record sync_args =
  arg_include :: "string list option"
  arg_exclude :: "string list option"
  arg_batch_size :: int
  arg_dry_run :: bool
  arg_keep_fk_checks :: bool
  arg_no_insert_ignore :: bool
  arg_allow_mysql_port_5432 :: bool
  arg_change_detector :: bool

text \<open>
  One task of the worker pool. The two table look-ups are outside the \<open>try\<close> block of
  \<open>_task\<close>; nobody asks the future for its result, so an exception there is dropped. An
  exception of \<open>sync_table\<close> is logged.
\<close>

definition sync_task :: "string \<Rightarrow> string \<Rightarrow> table list \<Rightarrow> table list \<Rightarrow> SyncOptions \<Rightarrow> string \<Rightarrow> world \<Rightarrow> world" where
  "sync_task local_engine prod_engine local_meta prod_meta options table_name w =
     (case find (\<lambda>t. tbl_name t = table_name) local_meta of
        None \<Rightarrow> w
      | Some local_table \<Rightarrow>
          (case find (\<lambda>t. tbl_name t = table_name) prod_meta of
             None \<Rightarrow> w
           | Some prod_table \<Rightarrow>
               (case sync_table local_engine prod_engine local_table prod_table options w of
                  (w', Inl e) \<Rightarrow> logging ERROR (TableError table_name e) w'
                | (w', Inr _) \<Rightarrow> w')))"

text \<open>
  The tasks are submitted in the order of the table list; the model runs them one after
  the other in that order.
\<close>

fun sync_tasks :: "string \<Rightarrow> string \<Rightarrow> table list \<Rightarrow> table list \<Rightarrow> SyncOptions \<Rightarrow> string list \<Rightarrow> world \<Rightarrow> world" where
  "sync_tasks local_engine prod_engine local_meta prod_meta options [] w = w"
| "sync_tasks local_engine prod_engine local_meta prod_meta options (table_name # rest) w =
     sync_tasks local_engine prod_engine local_meta prod_meta options rest
       (sync_task local_engine prod_engine local_meta prod_meta options table_name w)"

text \<open>The part of \<open>sync_mysql\<close> after the fast change detection (lines 536 to 594).\<close>

definition sync_mysql_run :: "string \<Rightarrow> string \<Rightarrow> sync_args \<Rightarrow> world \<Rightarrow> world \<times> (error + unit)" where
  "sync_mysql_run local_url prod_url args w =
     (case load_metadata local_url (logging INFO ReflectingSchemas (logging INFO Connecting w)) of
        (w1, Inl e) \<Rightarrow> (w1, Inl e)
      | (w1, Inr local_meta) \<Rightarrow>
          (case load_metadata prod_url w1 of
             (w2, Inl e) \<Rightarrow> (w2, Inl e)
           | (w2, Inr prod_meta) \<Rightarrow>
               (let tables = get_common_table_names local_meta prod_meta
                in if tables = [] then (logging ERROR NoCommonTables w2, Inl (SystemExit 1))
                   else
                     let tables = filter_tables tables (arg_include args) (arg_exclude args)
                     in if tables = [] then (logging ERROR NoTablesRemain w2, Inl (SystemExit 1))
                        else
                          let options = \<lparr>dry_run = arg_dry_run args,
                                         batch_size = arg_batch_size args,
                                         disable_fk_checks = \<not> arg_keep_fk_checks args,
                                         use_insert_ignore = \<not> arg_no_insert_ignore args\<rparr>;
                              w3 = logging INFO UsingWorkers (logging INFO (TablesToSynchronize tables) w2);
                              w4 = sync_tasks local_url prod_url local_meta prod_meta options tables w3;
                              w5 = logging INFO SynchronizationComplete w4
                          in if arg_dry_run args then (w5, Inr ())
                             else (case write_current_signature local_url None w5 of
                                     (w6, Inl e) \<Rightarrow> (logging DEBUG (SignatureNotSaved e) w6, Inr ())
                                   | (w6, Inr _) \<Rightarrow> (w6, Inr ())))))"

definition sync_mysql :: "string \<Rightarrow> string \<Rightarrow> sync_args \<Rightarrow> world \<Rightarrow> world \<times> (error + unit)" where
  "sync_mysql local_url prod_url args w =
     (if \<not> is_mysql_url local_url w \<or> \<not> is_mysql_url prod_url w
      then (logging ERROR NotMySQLUrls w, Inl (SystemExit 2))
      else if get_port prod_url w = Some 5432 \<and> \<not> arg_allow_mysql_port_5432 args
      then (logging ERROR ProdPort5432 w, Inl (SystemExit 2))
      else if arg_change_detector args \<and> \<not> arg_dry_run args
      then (case has_database_changes local_url None None w of
              (w1, Inl e) \<Rightarrow> sync_mysql_run local_url prod_url args (logging DEBUG (DetectionSkipped e) w1)
            | (w1, Inr changed) \<Rightarrow>
                if \<not> changed then (logging INFO NoLocalChanges w1, Inr ())
                else sync_mysql_run local_url prod_url args w1)
      else sync_mysql_run local_url prod_url args w)"

section \<open>The two-way loop (\<open>examples/full_real_time_sync.py\<close>)\<close>

definition printing :: "print_line \<Rightarrow> world \<Rightarrow> world" where
  "printing line w = w\<lparr>stdout := stdout w @ [line]\<rparr>"

text \<open>The arguments with which \<open>sync_side\<close> calls \<open>sync_mysql\<close>.\<close>

definition sync_side_args :: sync_args where
  "sync_side_args =
     \<lparr>arg_include = None, arg_exclude = None, arg_batch_size = 1000, arg_dry_run = False,
      arg_keep_fk_checks = False, arg_no_insert_ignore = False,
      arg_allow_mysql_port_5432 = True, arg_change_detector = False\<rparr>"

text \<open>Lines 56 to 59: the signatures of both sides are set to that of the target.\<close>

definition update_both_signatures :: "string \<Rightarrow> string \<Rightarrow> string \<Rightarrow> string \<Rightarrow> world \<Rightarrow> world \<times> (error + unit)" where
  "update_both_signatures name target_url source_state_file target_state_file w =
     (case get_quick_signature target_url (Some ''content'') w of
        (w1, Inl e) \<Rightarrow> (w1, Inl e)
      | (w1, Inr new_sig) \<Rightarrow>
          (case save_current_signature new_sig (Some source_state_file) w1 of
             (w2, Inl e) \<Rightarrow> (w2, Inl e)
           | (w2, Inr _) \<Rightarrow>
               (case save_current_signature new_sig (Some target_state_file) w2 of
                  (w3, Inl e) \<Rightarrow> (w3, Inl e)
                | (w3, Inr _) \<Rightarrow> (printing (SyncCompleteUpdatedSignatures name) w3, Inr ()))))"

text \<open>The body of the \<open>try\<close> block of one round of the \<open>while\<close> loop of \<open>sync_side\<close>.\<close>

definition sync_side_try :: "string \<Rightarrow> string \<Rightarrow> string \<Rightarrow> world \<Rightarrow> world \<times> (error + unit)" where
  "sync_side_try name source_url target_url w =
     (case get_state_file_for_database source_url w of
        (w1, source_state_file) \<Rightarrow>
     (case get_state_file_for_database target_url w1 of
        (w2, target_state_file) \<Rightarrow>
     (case get_quick_signature source_url (Some ''content'') w2 of
        (w3, Inl e) \<Rightarrow> (w3, Inl e)
      | (w3, Inr current_sig) \<Rightarrow>
     (case load_last_signature (Some source_state_file) w3 of
        (w4, Inl e) \<Rightarrow> (w4, Inl e)
      | (w4, Inr last_sig) \<Rightarrow>
     (case has_database_changes source_url None (Some ''content'')
             (printing (Checking name current_sig last_sig) w4) of
        (w5, Inl e) \<Rightarrow> (w5, Inl e)
      | (w5, Inr changed) \<Rightarrow>
          if \<not> changed then (w5, Inr ())
          else
            (case sync_mysql source_url target_url sync_side_args (printing (ChangesDetected name) w5) of
               (w6, Inl e) \<Rightarrow> (w6, Inl e)
             | (w6, Inr _) \<Rightarrow>
                 update_both_signatures name target_url source_state_file target_state_file w6))))))"

text \<open>
  One round of the loop: \<open>except Exception\<close> prints the error and the loop goes on;
  \<open>SystemExit\<close> is not an \<open>Exception\<close> and leaves the loop.
\<close>

definition sync_side_round :: "string \<Rightarrow> string \<Rightarrow> string \<Rightarrow> world \<Rightarrow> world \<times> (error + unit)" where
  "sync_side_round name source_url target_url w =
     (case sync_side_try name source_url target_url w of
        (w', Inl (SystemExit code)) \<Rightarrow> (w', Inl (SystemExit code))
      | (w', Inl e) \<Rightarrow> (printing (ErrorRunningSync name e) w', Inr ())
      | (w', Inr _) \<Rightarrow> (w', Inr ()))"

section \<open>Observations\<close>

text \<open>The statements sent between two worlds of one run.\<close>

definition issued :: "world \<Rightarrow> world \<Rightarrow> stmt list" where
  "issued w w' = drop (length (trace w)) (trace w')"

fun is_mutation :: "stmt \<Rightarrow> bool" where
  "is_mutation (Insert engine name ignore payload) = True"
| "is_mutation (Upsert engine name cols payload) = True"
| "is_mutation (Delete engine name pk_values) = True"
| "is_mutation s = False"

fun is_insert :: "stmt \<Rightarrow> bool" where
  "is_insert (Insert engine name ignore payload) = True"
| "is_insert s = False"

fun is_upsert :: "stmt \<Rightarrow> bool" where
  "is_upsert (Upsert engine name cols payload) = True"
| "is_upsert s = False"

fun is_select_pks :: "stmt \<Rightarrow> bool" where
  "is_select_pks (SelectPKs engine name pks) = True"
| "is_select_pks s = False"

fun is_fk_toggle :: "stmt \<Rightarrow> bool" where
  "is_fk_toggle (SetFK engine enabled) = True"
| "is_fk_toggle s = False"

text \<open>The column names of the rows that a statement writes.\<close>

fun payload_columns :: "stmt \<Rightarrow> string set" where
  "payload_columns (Insert engine name ignore payload) = (\<Union>r \<in> set payload. fst ` set r)"
| "payload_columns (Upsert engine name cols payload) = (\<Union>r \<in> set payload. fst ` set r)"
| "payload_columns s = {}"

text \<open>The payload that \<open>insert_rows\<close> builds from the rows it is given.\<close>

definition insert_payload :: "table \<Rightarrow> row list \<Rightarrow> row list" where
  "insert_payload t rows =
     map (filter (\<lambda>(k, v). k \<in> set (filter (\<lambda>name. \<not> is_computed t name) (column_names t)))) rows"

text \<open>The keys of the rows that an upsert statement carries.\<close>

fun upsert_keys :: "string list \<Rightarrow> stmt \<Rightarrow> PKTuple set" where
  "upsert_keys pks (Upsert engine name cols payload) = set (map (row_key pks) payload)"
| "upsert_keys pks s = {}"

text \<open>
  The statements of the apply phase of \<open>sync_table\<close>: reads of the local table, hash
  queries on both sides, and writes to the destination table whose payload holds no
  computed column of the table object that the writing path consults.
\<close>

fun apply_stmt :: "string \<Rightarrow> string \<Rightarrow> table \<Rightarrow> table \<Rightarrow> stmt \<Rightarrow> bool" where
  "apply_stmt le pe lt pt (SelectRows engine name pk_values) = (engine = le \<and> name = tbl_name lt)"
| "apply_stmt le pe lt pt (SelectHashes engine name cols pk_values) =
     (engine = le \<and> name = tbl_name lt \<or> engine = pe \<and> name = tbl_name pt)"
| "apply_stmt le pe lt pt (Insert engine name ignore payload) =
     (engine = pe \<and> name = tbl_name pt
      \<and> payload_columns (Insert engine name ignore payload) \<inter> set (get_computed_column_names pt) = {})"
| "apply_stmt le pe lt pt (Upsert engine name cols payload) =
     (engine = pe \<and> name = tbl_name pt
      \<and> payload_columns (Upsert engine name cols payload) \<inter> set (get_computed_column_names lt) = {})"
| "apply_stmt le pe lt pt (Delete engine name pk_values) = (engine = pe \<and> name = tbl_name pt)"
| "apply_stmt le pe lt pt s = False"

text \<open>
  Every statement sent so far, with the pooled connection that served it and the value
  that \<open>FOREIGN_KEY_CHECKS\<close> had in the session of that connection when it ran.
\<close>

definition served_statements :: "world \<Rightarrow> (stmt \<times> nat \<times> bool) list" where
  "served_statements w = zip (trace w) (served w)"

text \<open>
  The environment of a world: the fields that no function of the program assigns.
\<close>

definition env_of :: "world \<Rightarrow> (nat \<Rightarrow> stmt \<Rightarrow> bool) \<times> (string \<Rightarrow> nat \<Rightarrow> nat) \<times> (string \<Rightarrow> bool) \<times> (string \<Rightarrow> bool) \<times> (string \<Rightarrow> table list) \<times> (string \<Rightarrow> (string \<times> nat) option) \<times> (string \<Rightarrow> nat list) \<times> (string \<Rightarrow> (string option \<times> int option) option) \<times> string option" where
  "env_of w =
     (fault_at w, checkout w, unreadable w, unwritable w, reflected w, master_status w, md5 w,
      make_url w, default_database_url w)"

text \<open>The data that a run can change: rows, session flags and state files.\<close>

definition data_of :: "world \<Rightarrow> (string \<Rightarrow> string \<Rightarrow> row list) \<times> (string \<Rightarrow> nat \<Rightarrow> bool) \<times> (string \<rightharpoonup> string) \<times> bool" where
  "data_of w = (rows_of w, fk_checks w, files w, state_dir w)"

text \<open>The row stored under a key, as a dictionary keyed by primary key reads it.\<close>

definition row_at :: "string list \<Rightarrow> row list \<Rightarrow> PKTuple \<Rightarrow> row option" where
  "row_at pks rs k = find (\<lambda>r. row_key pks r = k) (rev rs)"

text \<open>The fingerprint of the row stored under a key in a table of an engine.\<close>

definition fingerprint_at :: "world \<Rightarrow> string \<Rightarrow> table \<Rightarrow> string list \<Rightarrow> string list \<Rightarrow> PKTuple \<Rightarrow> string option" where
  "fingerprint_at w engine t pks data_cols k =
     map_option (build_row_fingerprint_expr (md5 w) data_cols)
       (row_at pks (rows_of w engine (tbl_name t)) k)"

section \<open>Example worlds\<close>

text \<open>
  A world with no tables, no files and no faults, in which every URL is a MySQL URL
  on port 3306, every session has \<open>FOREIGN_KEY_CHECKS = 1\<close> (the server's default) and every
  engine serves all statements on one connection. The character codes of the text, read
  from its end, stand in for the digits of its MD5 digest.
\<close>

definition empty_world :: world where
  "empty_world =
     \<lparr>rows_of = (\<lambda>engine name. []), fk_checks = (\<lambda>engine conn. True), files = Map.empty,
      state_dir = False, trace = [], served = [], logs = [], stdout = [],
      fault_at = (\<lambda>n s. False), checkout = (\<lambda>engine n. 0),
      unreadable = (\<lambda>f. False), unwritable = (\<lambda>f. False),
      reflected = (\<lambda>engine. []), master_status = (\<lambda>engine. None),
      md5 = (\<lambda>s. map of_char (rev s)),
      make_url = (\<lambda>url. Some (Some ''mysql'', Some 3306)), default_database_url = None\<rparr>"

text \<open>
  The table \<open>orders\<close> of the scenario of the specification: key \<open>id\<close>, a data column
  \<open>note\<close> and a generated column \<open>total\<close>.
\<close>

definition orders :: table where
  "orders =
     \<lparr>tbl_name = ''orders'',
      tbl_columns = [\<lparr>col_name = ''id'', col_computed = False\<rparr>,
                     \<lparr>col_name = ''note'', col_computed = False\<rparr>,
                     \<lparr>col_name = ''total'', col_computed = True\<rparr>],
      tbl_primary_key = [''id'']\<rparr>"

text \<open>A table that declares no primary key.\<close>

definition audit_log :: table where
  "audit_log =
     \<lparr>tbl_name = ''audit_log'',
      tbl_columns = [\<lparr>col_name = ''line'', col_computed = False\<rparr>],
      tbl_primary_key = []\<rparr>"

definition order_row :: "int \<Rightarrow> string \<Rightarrow> row" where
  "order_row i note = [(''id'', IntV i), (''note'', StrV note), (''total'', IntV (i * 10))]"

text \<open>
  Local ids 1 to 4 and remote ids 2, 3 and 5; row 2 is the same on both sides and row 3
  differs.
\<close>

definition orders_world :: world where
  "orders_world =
     empty_world
       \<lparr>rows_of := (\<lambda>engine name.
          if name = ''orders'' \<and> engine = ''mysql://local''
          then [order_row 1 ''a'', order_row 2 ''b'', order_row 3 ''c'', order_row 4 ''d'']
          else if name = ''orders'' \<and> engine = ''mysql://remote''
          then [order_row 2 ''b'', order_row 3 ''x'', order_row 5 ''e'']
          else []),
        reflected := (\<lambda>engine. [orders])\<rparr>"

text \<open>
  The table \<open>orders\<close> as a source declares it on which \<open>total\<close> is an ordinary column,
  and the world in which reflection reports that declaration for the source and the one
  with the generated column for the destination.
\<close>

definition orders_plain :: table where
  "orders_plain =
     \<lparr>tbl_name = ''orders'',
      tbl_columns = [\<lparr>col_name = ''id'', col_computed = False\<rparr>,
                     \<lparr>col_name = ''note'', col_computed = False\<rparr>,
                     \<lparr>col_name = ''total'', col_computed = False\<rparr>],
      tbl_primary_key = [''id'']\<rparr>"

definition asymmetric_world :: world where
  "asymmetric_world =
     orders_world
       \<lparr>reflected := (\<lambda>engine. if engine = ''mysql://local'' then [orders_plain] else [orders])\<rparr>"

text \<open>
  The world of the orders with two pooled connections in use on every engine: the
  statement at position 2 of the trace is served by connection 0 and every other statement
  by connection 1. A pool holds more than one connection as soon as two of the table tasks
  of \<open>sync_mysql\<close>, which share one engine and run on at least two worker threads, have
  held a connection at the same time.
\<close>

definition pooled_world :: world where
  "pooled_world = orders_world\<lparr>checkout := (\<lambda>engine n. if n = 2 then 0 else 1)\<rparr>"

text \<open>The same world with a server that reports binary-log coordinates.\<close>

definition binlog_world :: world where
  "binlog_world = orders_world\<lparr>master_status := (\<lambda>engine. Some (''binlog.000042'', 154))\<rparr>"

text \<open>The same world with a destination that rejects every \<open>INSERT\<close>.\<close>

definition insert_fails_world :: world where
  "insert_fails_world =
     orders_world\<lparr>fault_at := (\<lambda>n s. case s of Insert engine name ignore payload \<Rightarrow> True | _ \<Rightarrow> False)\<rparr>"

text \<open>
  A table without generated columns, and a world for the two-way loop: \<open>dev\<close> and \<open>prod\<close>
  were in step when both held the row of Bob alone, the state file of each holds the
  content signature of that moment, and \<open>dev\<close> has gained two rows since.
\<close>

definition customers :: table where
  "customers =
     \<lparr>tbl_name = ''customers'',
      tbl_columns = [\<lparr>col_name = ''id'', col_computed = False\<rparr>,
                     \<lparr>col_name = ''name'', col_computed = False\<rparr>],
      tbl_primary_key = [''id'']\<rparr>"

definition customer_row :: "int \<Rightarrow> string \<Rightarrow> row" where
  "customer_row i name = [(''id'', IntV i), (''name'', StrV name)]"

definition customers_world :: world where
  "customers_world =
     empty_world
       \<lparr>rows_of := (\<lambda>engine name.
          if name = ''customers'' \<and> engine = ''mysql://dev''
          then [customer_row 1 ''ann'', customer_row 2 ''bob'', customer_row 3 ''cyd'']
          else if name = ''customers'' \<and> engine = ''mysql://prod''
          then [customer_row 2 ''bob'']
          else []),
        files := [''.state/.sync_db_654ffac139d000000000.state''
                    \<mapsto> ''content:4a325df4353000000000000000000000'',
                  ''.state/.sync_db_4f20ffac139d00000000.state''
                    \<mapsto> ''content:4a325df4353000000000000000000000''],
        state_dir := True,
        reflected := (\<lambda>engine. [customers])\<rparr>"


text \<open>
  The same world with a server that rejects the one statement sent at position 21, which
  in a round of the loop is the first statement of the signature query on \<open>prod\<close> after the
  sync.
\<close>

definition outage_world :: world where
  "outage_world = customers_world\<lparr>fault_at := (\<lambda>n s. n = 21)\<rparr>"

definition default_options :: SyncOptions where
  "default_options =
     \<lparr>dry_run = False, batch_size = 1000, disable_fk_checks = True, use_insert_ignore = True\<rparr>"

definition dry_run_options :: SyncOptions where
  "dry_run_options = default_options\<lparr>dry_run := True\<rparr>"

text \<open>A dry run of \<open>sync_mysql\<close> with the change detector switched on.\<close>

definition dry_run_args :: sync_args where
  "dry_run_args = sync_side_args\<lparr>arg_dry_run := True, arg_change_detector := True\<rparr>"

section \<open>Set-diff correctness\<close>

text \<open>
  Claim C1. For finite key sets \<open>L\<close> (local) and \<open>R\<close> (remote) the plan that \<open>sync_table\<close>
  computes lists exactly \<open>L - R\<close> as rows to insert, \<open>R - L\<close> as rows to delete and
  \<open>L \<inter> R\<close> as overlap; rows to insert and rows to delete are disjoint, insert and overlap
  together make up \<open>L\<close>, delete and overlap together make up \<open>R\<close>; and each of the three
  lists is in ascending lexicographic order of the tuples, without repetition.
\<close>

theorem diff_keys_correct:
  assumes "finite L" and "finite R"
    and "diff_keys L R = (to_insert, to_delete, overlap)"
  shows "set to_insert = L - R \<and> set to_delete = R - L \<and> set overlap = L \<inter> R
    \<and> set to_insert \<inter> set to_delete = {}
    \<and> set to_insert \<union> set overlap = L
    \<and> set to_delete \<union> set overlap = R
    \<and> sorted to_insert \<and> sorted to_delete \<and> sorted overlap
    \<and> distinct to_insert \<and> distinct to_delete \<and> distinct overlap"
proof -
  from assms(3) have ti: "to_insert = sorted_list_of_set (L - R)"
    and td: "to_delete = sorted_list_of_set (R - L)"
    and ov: "overlap = sorted_list_of_set (L \<inter> R)"
    by (simp_all add: diff_keys_def)
  have fin: "finite (L - R)" "finite (R - L)" "finite (L \<inter> R)"
    using assms(1,2) by simp_all
  have sets: "set to_insert = L - R" "set to_delete = R - L" "set overlap = L \<inter> R"
    using fin by (simp_all add: ti td ov)
  have "set to_insert \<inter> set to_delete = {}"
    "set to_insert \<union> set overlap = L" "set to_delete \<union> set overlap = R"
    unfolding sets by blast+
  moreover have "sorted to_insert" "sorted to_delete" "sorted overlap"
    "distinct to_insert" "distinct to_delete" "distinct overlap"
    by (simp_all add: ti td ov)
  ultimately show ?thesis
    using sets by simp
qed

theorem diff_keys_correct_witness:
  "diff_keys {[IntV 1], [IntV 2], [IntV 3], [IntV 4]} {[IntV 2], [IntV 3], [IntV 5]}
     = ([[IntV 1], [IntV 4]], [[IntV 5]], [[IntV 2], [IntV 3]])
   \<and> set [[IntV 1], [IntV 4]] \<inter> set [[IntV 5]] = {}
   \<and> sorted [[IntV 1], [IntV 4]]"
proof -
  have d: "diff_keys {[IntV 1], [IntV 2], [IntV 3], [IntV 4]} {[IntV 2], [IntV 3], [IntV 5]}
     = ([[IntV 1], [IntV 4]], [[IntV 5]], [[IntV 2], [IntV 3]])"
    by code_simp
  have f1: "finite {[IntV 1], [IntV 2], [IntV 3], [IntV 4]}"
    and f2: "finite {[IntV 2], [IntV 3], [IntV 5]}"
    by simp_all
  from diff_keys_correct [OF f1 f2 d] show ?thesis
    using d by simp
qed

section \<open>The environment is never assigned\<close>

lemma env_of_logging [simp]: "env_of (logging lv entry w) = env_of w"
  by (simp add: env_of_def logging_def)

lemma env_of_printing [simp]: "env_of (printing line w) = env_of w"
  by (simp add: env_of_def printing_def)

lemma env_of_set_rows [simp]: "env_of (set_rows engine name rs w) = env_of w"
  by (simp add: env_of_def set_rows_def)

lemma env_of_fields:
  assumes "env_of w' = env_of w"
  shows "fault_at w' = fault_at w" "checkout w' = checkout w" "unreadable w' = unreadable w" "unwritable w' = unwritable w"
    "reflected w' = reflected w" "master_status w' = master_status w" "md5 w' = md5 w"
    "make_url w' = make_url w" "default_database_url w' = default_database_url w"
  using assms by (simp_all add: env_of_def)

lemma execute_env: "execute s w = (w', r) \<Longrightarrow> env_of w' = env_of w"
  by (auto simp: execute_def env_of_def Let_def split: if_splits)

















section \<open>The statements that each function sends\<close>

lemma trace_logging [simp]: "trace (logging lv entry w) = trace w"
  by (simp add: logging_def)

lemma trace_printing [simp]: "trace (printing line w) = trace w"
  by (simp add: printing_def)

lemma trace_set_rows [simp]: "trace (set_rows engine name rs w) = trace w"
  by (simp add: set_rows_def)

lemma execute_trace: "execute s w = (w', r) \<Longrightarrow> trace w' = trace w @ [s]"
  by (auto simp: execute_def Let_def split: if_splits)

lemma fetch_pk_values_trace:
  "fetch_pk_values engine t pks w = (w', r) \<Longrightarrow>
     trace w' = trace w \<or> trace w' = trace w @ [SelectPKs engine (tbl_name t) pks]"
  by (auto simp: fetch_pk_values_def split: if_splits prod.splits sum.splits dest: execute_trace)

lemma fetch_rows_by_pks_trace:
  "fetch_rows_by_pks engine t pks ks w = (w', r) \<Longrightarrow>
     trace w' = trace w \<or> trace w' = trace w @ [SelectRows engine (tbl_name t) ks]"
  by (auto simp: fetch_rows_by_pks_def split: if_splits prod.splits sum.splits dest: execute_trace)

lemma fetch_hashes_for_pks_trace:
  "fetch_hashes_for_pks engine t pks dc ks w = (w', r) \<Longrightarrow>
     trace w' = trace w \<or> trace w' = trace w @ [SelectHashes engine (tbl_name t) dc ks]"
  by (auto simp: fetch_hashes_for_pks_def split: if_splits prod.splits sum.splits dest: execute_trace)

lemma insert_rows_trace:
  "insert_rows engine t rows ignore w = (w', r) \<Longrightarrow>
     trace w' = trace w \<or>
     trace w' = trace w @ [Insert engine (tbl_name t) ignore
        (map (filter (\<lambda>(k, v). k \<in> set (filter (\<lambda>name. \<not> is_computed t name) (column_names t)))) rows)]"
  by (auto simp: insert_rows_def Let_def split: if_splits prod.splits sum.splits option.splits
           dest: execute_trace)

lemma upsert_rows_trace:
  "upsert_rows engine t rows cols w = (w', r) \<Longrightarrow>
     trace w' = trace w \<or> trace w' = trace w @ [Upsert engine (tbl_name t) cols rows]"
  by (auto simp: upsert_rows_def split: if_splits prod.splits sum.splits dest: execute_trace)

lemma delete_rows_by_pks_trace:
  "delete_rows_by_pks engine t pks ks w = (w', r) \<Longrightarrow>
     trace w' = trace w \<or> trace w' = trace w @ [Delete engine (tbl_name t) ks]"
  by (auto simp: delete_rows_by_pks_def Let_def split: if_splits prod.splits sum.splits
           dest: execute_trace)

lemma set_foreign_key_checks_trace:
  "set_foreign_key_checks engine b w = (w', r) \<Longrightarrow> trace w' = trace w @ [SetFK engine b]"
  by (auto simp: set_foreign_key_checks_def execute_def Let_def split: if_splits)

text \<open>Stripped payloads hold no computed column.\<close>

lemma insert_payload_clean:
  "payload_columns (Insert engine name ignore
      (map (filter (\<lambda>(k, v). k \<in> set (filter (\<lambda>name. \<not> is_computed t name) (column_names t)))) rows))
    \<inter> set (get_computed_column_names t) = {}"
  by (auto simp: get_computed_column_names_def)


lemma upsert_payload_clean:
  "payload_columns (Upsert engine name cols
      (map (filter (\<lambda>(k, v). k \<notin> set (get_computed_column_names t))) rows))
    \<inter> set (get_computed_column_names t) = {}"
  by auto

lemma insert_batches_trace:
  "insert_batches le pe lt pt pks ign batches tot w = (w', r) \<Longrightarrow>
     \<exists>new. trace w' = trace w @ new \<and> (\<forall>s \<in> set new. apply_stmt le pe lt pt s)"
proof (induction batches arbitrary: tot w)
  case Nil
  then show ?case by simp
next
  case (Cons batch rest)
  show ?case
  proof (cases "fetch_rows_by_pks le lt pks batch w")
    case (Pair w1 r1)
    note f = fetch_rows_by_pks_trace [OF Pair]
    show ?thesis
    proof (cases r1)
      case (Inl e)
      with Cons.prems Pair f show ?thesis by auto
    next
      case (Inr rows)
      show ?thesis
      proof (cases "insert_rows pe pt rows ign w1")
        case ins: (Pair w2 r2)
        note i = insert_rows_trace [OF ins]
        show ?thesis
        proof (cases r2)
          case (Inl e)
          with Cons.prems Pair Inr ins f i show ?thesis
            using insert_payload_clean [of pe "tbl_name pt" ign pt rows] by auto
        next
          case r2: (Inr n)
          with Cons.prems Pair Inr ins
          have "insert_batches le pe lt pt pks ign rest (tot + n) w2 = (w', r)" by simp
          from Cons.IH [OF this] obtain new where
            new: "trace w' = trace w2 @ new" "\<forall>s \<in> set new. apply_stmt le pe lt pt s" by blast
          with f i show ?thesis
            using insert_payload_clean [of pe "tbl_name pt" ign pt rows] by auto
        qed
      qed
    qed
  qed
qed

lemma delete_batches_trace:
  "delete_batches pe pt pks batches tot w = (w', r) \<Longrightarrow>
     \<exists>new. trace w' = trace w @ new \<and> (\<forall>s \<in> set new. apply_stmt le pe lt pt s)"
proof (induction batches arbitrary: tot w)
  case Nil
  then show ?case by simp
next
  case (Cons batch rest)
  show ?case
  proof (cases "delete_rows_by_pks pe pt pks batch w")
    case (Pair w1 r1)
    note d = delete_rows_by_pks_trace [OF Pair]
    show ?thesis
    proof (cases r1)
      case (Inl e)
      with Cons.prems Pair d show ?thesis by auto
    next
      case (Inr n)
      with Cons.prems Pair
      have "delete_batches pe pt pks rest (tot + n) w1 = (w', r)" by simp
      from Cons.IH [OF this] obtain new where
        "trace w' = trace w1 @ new" "\<forall>s \<in> set new. apply_stmt le pe lt pt s" by blast
      with d show ?thesis by auto
    qed
  qed
qed

lemma update_batch_trace:
  assumes "update_batch le pe lt pt pks dc batch w = (w', r)"
  shows "\<exists>new. trace w' = trace w @ new \<and> (\<forall>s \<in> set new. apply_stmt le pe lt pt s)"
proof -
  note clean = upsert_payload_clean [of pe "tbl_name pt" dc lt]
  from assms show ?thesis
    by (auto simp: update_batch_def Let_def clean split: prod.splits sum.splits if_splits
        dest!: fetch_hashes_for_pks_trace fetch_rows_by_pks_trace upsert_rows_trace)
qed

lemma update_batches_trace:
  "update_batches le pe lt pt pks dc batches tot w = (w', r) \<Longrightarrow>
     \<exists>new. trace w' = trace w @ new \<and> (\<forall>s \<in> set new. apply_stmt le pe lt pt s)"
proof (induction batches arbitrary: tot w)
  case Nil
  then show ?case by simp
next
  case (Cons batch rest)
  obtain w1 r1 where b: "update_batch le pe lt pt pks dc batch w = (w1, r1)"
    by (cases "update_batch le pe lt pt pks dc batch w")
  from update_batch_trace [OF b] obtain n1 where
    n1: "trace w1 = trace w @ n1" "\<forall>s \<in> set n1. apply_stmt le pe lt pt s" by blast
  show ?case
  proof (cases r1)
    case (Inl e)
    with Cons.prems b n1 show ?thesis by auto
  next
    case (Inr n)
    with Cons.prems b have "update_batches le pe lt pt pks dc rest (tot + n) w1 = (w', r)" by simp
    from Cons.IH [OF this] obtain n2 where
      "trace w' = trace w1 @ n2" "\<forall>s \<in> set n2. apply_stmt le pe lt pt s" by blast
    with n1 show ?thesis by auto
  qed
qed

lemma insert_phase_trace:
  "insert_phase le pe lt pt pks opts ks w = (w', r) \<Longrightarrow>
     \<exists>new. trace w' = trace w @ new \<and> (\<forall>s \<in> set new. apply_stmt le pe lt pt s)"
  by (auto simp: insert_phase_def Let_def split: if_splits sum.splits dest!: insert_batches_trace)

lemma update_phase_trace:
  "update_phase le pe lt pt pks opts ks w = (w', r) \<Longrightarrow>
     \<exists>new. trace w' = trace w @ new \<and> (\<forall>s \<in> set new. apply_stmt le pe lt pt s)"
  by (auto simp: update_phase_def Let_def split: if_splits sum.splits dest!: update_batches_trace)

lemma delete_phase_trace:
  "delete_phase pe lt pt pks opts ks w = (w', r) \<Longrightarrow>
     \<exists>new. trace w' = trace w @ new \<and> (\<forall>s \<in> set new. apply_stmt le pe lt pt s)"
  by (auto simp: delete_phase_def Let_def split: if_splits sum.splits
           dest!: delete_batches_trace [where le = le and lt = lt])

lemma apply_changes_trace:
  assumes "apply_changes le pe lt pt pks opts ti td ov w = (w', r)"
  shows "\<exists>new. trace w' = trace w @ new \<and> (\<forall>s \<in> set new. apply_stmt le pe lt pt s)"
proof -
  obtain w1 r1 where p1: "insert_phase le pe lt pt pks opts ti w = (w1, r1)"
    by (cases "insert_phase le pe lt pt pks opts ti w")
  obtain w2 r2 where p2: "update_phase le pe lt pt pks opts ov w1 = (w2, r2)"
    by (cases "update_phase le pe lt pt pks opts ov w1")
  obtain w3 r3 where p3: "delete_phase pe lt pt pks opts td w2 = (w3, r3)"
    by (cases "delete_phase pe lt pt pks opts td w2")
  from insert_phase_trace [OF p1] obtain n1 where
    n1: "trace w1 = trace w @ n1" "\<forall>s \<in> set n1. apply_stmt le pe lt pt s" by blast
  from update_phase_trace [OF p2] obtain n2 where
    n2: "trace w2 = trace w1 @ n2" "\<forall>s \<in> set n2. apply_stmt le pe lt pt s" by blast
  from delete_phase_trace [OF p3] obtain n3 where
    n3: "trace w3 = trace w2 @ n3" "\<forall>s \<in> set n3. apply_stmt le pe lt pt s" by blast
  have "trace w' = trace w1 \<or> trace w' = trace w2 \<or> trace w' = trace w3"
    using assms p1 p2 p3 by (auto simp: apply_changes_def split: sum.splits)
  with n1 n2 n3 show ?thesis by auto
qed

section \<open>Reads leave the data alone\<close>

lemma data_of_logging [simp]: "data_of (logging lv entry w) = data_of w"
  by (simp add: data_of_def logging_def)

lemma data_of_printing [simp]: "data_of (printing line w) = data_of w"
  by (simp add: data_of_def printing_def)

lemma data_of_fields:
  assumes "data_of w' = data_of w"
  shows "rows_of w' = rows_of w" "fk_checks w' = fk_checks w" "files w' = files w"
    "state_dir w' = state_dir w"
  using assms by (simp_all add: data_of_def)

lemma execute_data: "execute s w = (w', r) \<Longrightarrow> data_of w' = data_of w"
  by (auto simp: execute_def data_of_def Let_def split: if_splits)

lemma fetch_pk_values_data: "fetch_pk_values engine t pks w = (w', r) \<Longrightarrow> data_of w' = data_of w"
  by (auto simp: fetch_pk_values_def split: if_splits prod.splits sum.splits dest: execute_data)

lemma apply_stmt_not_toggle: "apply_stmt le pe lt pt s \<Longrightarrow> \<not> is_fk_toggle s"
  by (cases s) simp_all

lemma sync_table_trace:
  assumes "sync_table le pe lt pt options w = (w', r)"
  shows "\<exists>new. trace w' = trace w @ new \<and>
           (\<forall>s \<in> set new. is_select_pks s \<or> \<not> dry_run options \<and> (is_fk_toggle s \<or> apply_stmt le pe lt pt s))"
  using assms
  by (auto simp: sync_table_def Let_def split: if_splits prod.splits sum.splits
      dest!: fetch_pk_values_trace set_foreign_key_checks_trace apply_changes_trace)

lemma sync_table_dry_run_data:
  assumes "sync_table le pe lt pt options w = (w', r)" and "dry_run options"
  shows "data_of w' = data_of w"
  using assms
  by (auto simp: sync_table_def Let_def split: if_splits prod.splits sum.splits
      dest!: fetch_pk_values_data)

section \<open>Foreign-key checks\<close>

text \<open>
  Claim C6 does not hold of the code. \<open>sync_table\<close> sends \<open>SET FOREIGN_KEY_CHECKS = 0\<close>
  before the apply phase and \<open>SET FOREIGN_KEY_CHECKS = 1\<close> in a \<open>finally\<close> block after it, but
  each of the two, and each \<open>INSERT\<close>, upsert and \<open>DELETE\<close> between them, runs in a
  connection that is checked out of the pool for that statement alone, and the variable
  belongs to the session of one connection. In \<open>pooled_world\<close> the statement at position 2
  of the run is \<open>SET FOREIGN_KEY_CHECKS = 0\<close>; it is served by connection 0 and every later
  statement by connection 1. The run returns normally; its \<open>INSERT\<close>, its upsert and its
  \<open>DELETE\<close> were all served by a session in which the checks were on; the final
  \<open>SET FOREIGN_KEY_CHECKS = 1\<close> went to connection 1, where the checks had never been off;
  and connection 0 is back in the pool with the checks still off. In \<open>orders_world\<close>, where
  one connection serves every statement, the same run has the checks off for the three
  writes and on at the end.
\<close>

theorem fk_checks_follow_the_connection:
  "snd (sync_table ''mysql://local'' ''mysql://remote'' orders orders default_options pooled_world)
     = Inr ()
   \<and> filter (\<lambda>x. is_mutation (fst x) \<or> is_fk_toggle (fst x))
        (served_statements
           (fst (sync_table ''mysql://local'' ''mysql://remote'' orders orders default_options
                   pooled_world)))
       = [(SetFK ''mysql://remote'' False, 0, True),
          (Insert ''mysql://remote'' ''orders'' True
             [[(''id'', IntV 1), (''note'', StrV ''a'')], [(''id'', IntV 4), (''note'', StrV ''d'')]],
           1, True),
          (Upsert ''mysql://remote'' ''orders'' [''note'']
             [[(''id'', IntV 3), (''note'', StrV ''c'')]], 1, True),
          (Delete ''mysql://remote'' ''orders'' [[IntV 5]], 1, True),
          (SetFK ''mysql://remote'' True, 1, True)]
   \<and> fk_checks (fst (sync_table ''mysql://local'' ''mysql://remote'' orders orders default_options
                        pooled_world)) ''mysql://remote'' 0 = False
   \<and> fk_checks pooled_world ''mysql://remote'' 0 = True
   \<and> filter (\<lambda>x. is_mutation (fst x) \<or> is_fk_toggle (fst x))
        (served_statements
           (fst (sync_table ''mysql://local'' ''mysql://remote'' orders orders default_options
                   orders_world)))
       = [(SetFK ''mysql://remote'' False, 0, True),
          (Insert ''mysql://remote'' ''orders'' True
             [[(''id'', IntV 1), (''note'', StrV ''a'')], [(''id'', IntV 4), (''note'', StrV ''d'')]],
           0, False),
          (Upsert ''mysql://remote'' ''orders'' [''note'']
             [[(''id'', IntV 3), (''note'', StrV ''c'')]], 0, False),
          (Delete ''mysql://remote'' ''orders'' [[IntV 5]], 0, False),
          (SetFK ''mysql://remote'' True, 0, False)]
   \<and> fk_checks (fst (sync_table ''mysql://local'' ''mysql://remote'' orders orders default_options
                        orders_world)) ''mysql://remote'' 0 = True"
proof -
  let ?pooled = "sync_table ''mysql://local'' ''mysql://remote'' orders orders default_options
                   pooled_world"
  let ?single = "sync_table ''mysql://local'' ''mysql://remote'' orders orders default_options
                   orders_world"
  have 1: "snd ?pooled = Inr ()" by code_simp
  have 2: "filter (\<lambda>x. is_mutation (fst x) \<or> is_fk_toggle (fst x)) (served_statements (fst ?pooled))
       = [(SetFK ''mysql://remote'' False, 0, True),
          (Insert ''mysql://remote'' ''orders'' True
             [[(''id'', IntV 1), (''note'', StrV ''a'')], [(''id'', IntV 4), (''note'', StrV ''d'')]],
           1, True),
          (Upsert ''mysql://remote'' ''orders'' [''note'']
             [[(''id'', IntV 3), (''note'', StrV ''c'')]], 1, True),
          (Delete ''mysql://remote'' ''orders'' [[IntV 5]], 1, True),
          (SetFK ''mysql://remote'' True, 1, True)]"
    by code_simp
  have 3: "fk_checks (fst ?pooled) ''mysql://remote'' 0 = False" by code_simp
  have 4: "fk_checks pooled_world ''mysql://remote'' 0 = True" by code_simp
  have 5: "filter (\<lambda>x. is_mutation (fst x) \<or> is_fk_toggle (fst x)) (served_statements (fst ?single))
       = [(SetFK ''mysql://remote'' False, 0, True),
          (Insert ''mysql://remote'' ''orders'' True
             [[(''id'', IntV 1), (''note'', StrV ''a'')], [(''id'', IntV 4), (''note'', StrV ''d'')]],
           0, False),
          (Upsert ''mysql://remote'' ''orders'' [''note'']
             [[(''id'', IntV 3), (''note'', StrV ''c'')]], 0, False),
          (Delete ''mysql://remote'' ''orders'' [[IntV 5]], 0, False),
          (SetFK ''mysql://remote'' True, 0, False)]"
    by code_simp
  have 6: "fk_checks (fst ?single) ''mysql://remote'' 0 = True" by code_simp
  from 1 2 3 4 5 6 show ?thesis by blast
qed

theorem fk_checks_follow_the_connection_witness:
  "(Insert ''mysql://remote'' ''orders'' True
      [[(''id'', IntV 1), (''note'', StrV ''a'')], [(''id'', IntV 4), (''note'', StrV ''d'')]],
    1, True)
     \<in> set (filter (\<lambda>x. is_mutation (fst x) \<or> is_fk_toggle (fst x))
        (served_statements
           (fst (sync_table ''mysql://local'' ''mysql://remote'' orders orders default_options
                   pooled_world))))
   \<and> \<not> fk_checks (fst (sync_table ''mysql://local'' ''mysql://remote'' orders orders
                          default_options pooled_world)) ''mysql://remote'' 0"
  using fk_checks_follow_the_connection by simp

section \<open>Tables without a primary key\<close>

text \<open>
  Claim C8. When the reflected primary key of the table is empty, \<open>sync_table\<close> returns
  normally after logging one warning: no statement is sent to either engine, and rows,
  session flags and state files are as before.
\<close>

theorem sync_table_skips_without_primary_key:
  assumes "get_primary_key_column_names local_table = []"
  shows "sync_table local_engine prod_engine local_table prod_table options w =
           (w\<lparr>logs := logs w @ [(WARNING, SkippingNoPrimaryKey (tbl_name local_table))]\<rparr>, Inr ())
    \<and> issued w (fst (sync_table local_engine prod_engine local_table prod_table options w)) = []
    \<and> trace (fst (sync_table local_engine prod_engine local_table prod_table options w)) = trace w
    \<and> data_of (fst (sync_table local_engine prod_engine local_table prod_table options w)) = data_of w"
  using assms by (simp add: sync_table_def logging_def issued_def data_of_def)

theorem sync_table_skips_without_primary_key_witness:
  "get_primary_key_column_names audit_log = []
   \<and> snd (sync_table ''mysql://local'' ''mysql://remote'' audit_log audit_log default_options
            orders_world) = Inr ()
   \<and> trace (fst (sync_table ''mysql://local'' ''mysql://remote'' audit_log audit_log default_options
                    orders_world)) = trace orders_world"
proof -
  have h: "get_primary_key_column_names audit_log = []"
    by (simp add: get_primary_key_column_names_def audit_log_def)
  from sync_table_skips_without_primary_key [OF h, of "''mysql://local''" "''mysql://remote''"
      audit_log default_options orders_world]
  show ?thesis using h by simp
qed

section \<open>Computed columns\<close>

lemma payload_columns_insert_rows:
  assumes "insert_rows engine t rows ignore w = (w', r)"
  shows "trace w' = trace w @ issued w w'"
    and "\<forall>s \<in> set (issued w w'). payload_columns s \<inter> set (get_computed_column_names t) = {}"
proof -
  from insert_rows_trace [OF assms]
  show "trace w' = trace w @ issued w w'" by (auto simp: issued_def)
  from insert_rows_trace [OF assms]
  show "\<forall>s \<in> set (issued w w'). payload_columns s \<inter> set (get_computed_column_names t) = {}"
    by (auto simp: issued_def get_computed_column_names_def)
qed

lemma apply_stmt_payload:
  assumes "apply_stmt le pe lt pt s"
  shows "is_insert s \<Longrightarrow> payload_columns s \<inter> set (get_computed_column_names pt) = {}"
    and "is_upsert s \<Longrightarrow> payload_columns s \<inter> set (get_computed_column_names lt) = {}"
  using assms by (cases s; simp)+

lemma is_write_cases: "is_mutation s \<Longrightarrow> is_insert s \<or> is_upsert s \<or> payload_columns s = {}"
  by (cases s) simp_all

text \<open>
  What each path strips: the payload of every insert of \<open>sync_table\<close> holds no computed
  column of the destination table, the payload of every upsert no computed column of the
  local table.
\<close>

lemma sync_table_payload_columns:
  assumes "sync_table local_engine prod_engine local_table prod_table options w = (w', r)"
    and "s \<in> set (issued w w')"
  shows "is_insert s \<Longrightarrow> payload_columns s \<inter> set (get_computed_column_names prod_table) = {}"
    and "is_upsert s \<Longrightarrow> payload_columns s \<inter> set (get_computed_column_names local_table) = {}"
proof -
  from sync_table_trace [OF assms(1)] obtain new where new: "trace w' = trace w @ new"
    "\<forall>s \<in> set new. is_select_pks s \<or> \<not> dry_run options \<and>
       (is_fk_toggle s \<or> apply_stmt local_engine prod_engine local_table prod_table s)"
    by blast
  then have "issued w w' = new" by (simp add: issued_def)
  with assms(2) new(2) have c: "is_select_pks s \<or> is_fk_toggle s
      \<or> apply_stmt local_engine prod_engine local_table prod_table s" by auto
  show "is_insert s \<Longrightarrow> payload_columns s \<inter> set (get_computed_column_names prod_table) = {}"
    using c apply_stmt_payload(1) by (cases s) auto
  show "is_upsert s \<Longrightarrow> payload_columns s \<inter> set (get_computed_column_names local_table) = {}"
    using c apply_stmt_payload(2) by (cases s) auto
qed

text \<open>
  Claim C4 does not hold of the code. \<open>insert_rows\<close> drops the computed columns of the
  table it writes to, the destination (line 151). The update phase of \<open>sync_table\<close> drops
  \<open>get_computed_column_names(local_table)\<close> (line 445), the computed columns of the table
  it reads from, and sends what is left to the destination. In the run below the source
  declares \<open>total\<close> as an ordinary column and the destination as a generated one, as
  reflection can report them; the rows with key 3 differ in \<open>note\<close>. The \<open>INSERT\<close> of the
  run carries no \<open>total\<close>, and the upsert of the same run carries \<open>total = 30\<close> for row 3:
  a value for a column that the destination generates. The same statements are sent when
  the run is started through \<open>sync_mysql\<close>.
\<close>

theorem upsert_writes_generated_column:
  "''total'' \<in> set (get_computed_column_names orders)
   \<and> ''total'' \<notin> set (get_computed_column_names orders_plain)
   \<and> filter is_insert (issued orders_world
          (fst (sync_table ''mysql://local'' ''mysql://remote'' orders_plain orders default_options
                  orders_world)))
       = [Insert ''mysql://remote'' ''orders'' True
            [[(''id'', IntV 1), (''note'', StrV ''a'')], [(''id'', IntV 4), (''note'', StrV ''d'')]]]
   \<and> filter is_upsert (issued orders_world
          (fst (sync_table ''mysql://local'' ''mysql://remote'' orders_plain orders default_options
                  orders_world)))
       = [Upsert ''mysql://remote'' ''orders'' [''note'', ''total'']
            [[(''id'', IntV 3), (''note'', StrV ''c''), (''total'', IntV 30)]]]
   \<and> filter is_upsert (issued asymmetric_world
          (fst (sync_mysql ''mysql://local'' ''mysql://remote'' sync_side_args asymmetric_world)))
       = [Upsert ''mysql://remote'' ''orders'' [''note'', ''total'']
            [[(''id'', IntV 3), (''note'', StrV ''c''), (''total'', IntV 30)]]]"
proof -
  have 1: "''total'' \<in> set (get_computed_column_names orders)" by code_simp
  have 2: "''total'' \<notin> set (get_computed_column_names orders_plain)" by code_simp
  have 3: "filter is_insert (issued orders_world
          (fst (sync_table ''mysql://local'' ''mysql://remote'' orders_plain orders default_options
                  orders_world)))
       = [Insert ''mysql://remote'' ''orders'' True
            [[(''id'', IntV 1), (''note'', StrV ''a'')], [(''id'', IntV 4), (''note'', StrV ''d'')]]]"
    by code_simp
  have 4: "filter is_upsert (issued orders_world
          (fst (sync_table ''mysql://local'' ''mysql://remote'' orders_plain orders default_options
                  orders_world)))
       = [Upsert ''mysql://remote'' ''orders'' [''note'', ''total'']
            [[(''id'', IntV 3), (''note'', StrV ''c''), (''total'', IntV 30)]]]"
    by code_simp
  have 5: "filter is_upsert (issued asymmetric_world
          (fst (sync_mysql ''mysql://local'' ''mysql://remote'' sync_side_args asymmetric_world)))
       = [Upsert ''mysql://remote'' ''orders'' [''note'', ''total'']
            [[(''id'', IntV 3), (''note'', StrV ''c''), (''total'', IntV 30)]]]"
    by code_simp
  from 1 2 3 4 5 show ?thesis by blast
qed

theorem upsert_writes_generated_column_witness:
  "''total'' \<in> (\<Union>s \<in> set (filter is_upsert (issued orders_world
          (fst (sync_table ''mysql://local'' ''mysql://remote'' orders_plain orders default_options
                  orders_world)))). payload_columns s)
               \<inter> set (get_computed_column_names orders)"
  using upsert_writes_generated_column by simp

section \<open>Dry runs\<close>

lemma load_metadata_trace:
  "load_metadata engine w = (w', r) \<Longrightarrow> trace w' = trace w @ [Reflect engine]"
  by (auto simp: load_metadata_def split: prod.splits sum.splits dest: execute_trace)

lemma load_metadata_data: "load_metadata engine w = (w', r) \<Longrightarrow> data_of w' = data_of w"
  by (auto simp: load_metadata_def split: prod.splits sum.splits dest: execute_data)


lemma sync_table_dry_run_trace:
  assumes "sync_table le pe lt pt options w = (w', r)" and "dry_run options"
  shows "\<exists>new. trace w' = trace w @ new \<and> (\<forall>s \<in> set new. \<not> is_mutation s \<and> \<not> is_fk_toggle s)"
proof -
  from sync_table_trace [OF assms(1)] assms(2) obtain new where
    "trace w' = trace w @ new" "\<forall>s \<in> set new. is_select_pks s" by auto
  moreover have "is_select_pks s \<Longrightarrow> \<not> is_mutation s \<and> \<not> is_fk_toggle s" for s
    by (cases s) simp_all
  ultimately show ?thesis by blast
qed

lemma sync_task_dry_run:
  assumes "dry_run options"
  shows "data_of (sync_task le pe lm pm options name w) = data_of w"
    and "\<exists>new. trace (sync_task le pe lm pm options name w) = trace w @ new
           \<and> (\<forall>s \<in> set new. \<not> is_mutation s \<and> \<not> is_fk_toggle s)"
  using assms
  by (auto simp: sync_task_def split: option.splits prod.splits sum.splits
      dest: sync_table_dry_run_data sync_table_dry_run_trace)

lemma sync_tasks_dry_run:
  assumes "dry_run options"
  shows "data_of (sync_tasks le pe lm pm options names w) = data_of w
    \<and> (\<exists>new. trace (sync_tasks le pe lm pm options names w) = trace w @ new
           \<and> (\<forall>s \<in> set new. \<not> is_mutation s \<and> \<not> is_fk_toggle s))"
proof (induction names arbitrary: w)
  case Nil
  show ?case by simp
next
  case (Cons name rest)
  let ?w1 = "sync_task le pe lm pm options name w"
  from sync_task_dry_run [OF assms, of le pe lm pm name w] obtain n1 where
    d1: "data_of ?w1 = data_of w" and n1: "trace ?w1 = trace w @ n1"
    "\<forall>s \<in> set n1. \<not> is_mutation s \<and> \<not> is_fk_toggle s" by blast
  from Cons.IH [of ?w1] obtain n2 where
    d2: "data_of (sync_tasks le pe lm pm options rest ?w1) = data_of ?w1"
    and n2: "trace (sync_tasks le pe lm pm options rest ?w1) = trace ?w1 @ n2"
    "\<forall>s \<in> set n2. \<not> is_mutation s \<and> \<not> is_fk_toggle s" by blast
  from d1 d2 n1 n2 show ?case by auto
qed

lemma sync_mysql_run_dry_run:
  assumes "sync_mysql_run local_url prod_url args w = (w', r)" and "arg_dry_run args"
  shows "data_of w' = data_of w
    \<and> (\<exists>new. trace w' = trace w @ new \<and> (\<forall>s \<in> set new. \<not> is_mutation s \<and> \<not> is_fk_toggle s))"
proof -
  let ?w0 = "logging INFO ReflectingSchemas (logging INFO Connecting w)"
  obtain w1 r1 where m1: "load_metadata local_url ?w0 = (w1, r1)"
    by (cases "load_metadata local_url ?w0")
  obtain w2 r2 where m2: "load_metadata prod_url w1 = (w2, r2)"
    by (cases "load_metadata prod_url w1")
  note t1 = load_metadata_trace [OF m1] and t2 = load_metadata_trace [OF m2]
  from load_metadata_data [OF m1] have d1: "data_of w1 = data_of w" by simp
  from load_metadata_data [OF m2] d1 have d2: "data_of w2 = data_of w" by simp
  show ?thesis
  proof (cases r1)
    case (Inl e)
    with assms m1 have "w' = w1" by (simp add: sync_mysql_run_def)
    with t1 d1 show ?thesis by auto
  next
    case r1: (Inr lm)
    show ?thesis
    proof (cases r2)
      case (Inl e)
      with assms m1 r1 m2 have "w' = w2" by (simp add: sync_mysql_run_def)
      with t1 t2 d2 show ?thesis by auto
    next
      case r2: (Inr pm)
      let ?common = "get_common_table_names lm pm"
      let ?tables = "filter_tables ?common (arg_include args) (arg_exclude args)"
      let ?options = "\<lparr>dry_run = arg_dry_run args, batch_size = arg_batch_size args,
                       disable_fk_checks = \<not> arg_keep_fk_checks args,
                       use_insert_ignore = \<not> arg_no_insert_ignore args\<rparr>"
      let ?w3 = "logging INFO UsingWorkers (logging INFO (TablesToSynchronize ?tables) w2)"
      show ?thesis
      proof (cases "?common = [] \<or> ?tables = []")
        case True
        with assms m1 r1 m2 r2
        have "w' = logging ERROR NoCommonTables w2 \<or> w' = logging ERROR NoTablesRemain w2"
          by (auto simp: sync_mysql_run_def Let_def split: if_splits)
        with t1 t2 d2 show ?thesis by auto
      next
        case False
        with assms m1 r1 m2 r2
        have w': "w' = logging INFO SynchronizationComplete
                    (sync_tasks local_url prod_url lm pm ?options ?tables ?w3)"
          by (simp add: sync_mysql_run_def Let_def)
        have dry: "dry_run ?options" using assms(2) by simp
        from sync_tasks_dry_run [OF dry, of local_url prod_url lm pm ?tables ?w3] obtain new where
          "data_of (sync_tasks local_url prod_url lm pm ?options ?tables ?w3) = data_of ?w3"
          "trace (sync_tasks local_url prod_url lm pm ?options ?tables ?w3) = trace ?w3 @ new"
          "\<forall>s \<in> set new. \<not> is_mutation s \<and> \<not> is_fk_toggle s" by blast
        with w' d2 t1 t2 show ?thesis by auto
      qed
    qed
  qed
qed

text \<open>
  Claim C5. In a dry run, of \<open>sync_mysql\<close> as of \<open>sync_table\<close>, and whatever the plan is, no
  insert, upsert or delete and no \<open>SET FOREIGN_KEY_CHECKS\<close> is sent to any engine, and the
  rows of both databases, the foreign-key flags, the state files and the state directory
  are after the call exactly what they were before.
\<close>

theorem dry_run_changes_nothing:
  shows "(arg_dry_run args \<and> sync_mysql local_url prod_url args w = (w', r) \<longrightarrow>
            data_of w' = data_of w \<and> trace w' = trace w @ issued w w'
            \<and> (\<forall>s \<in> set (issued w w'). \<not> is_mutation s \<and> \<not> is_fk_toggle s))
    \<and> (dry_run options \<and>
          sync_table local_engine prod_engine local_table prod_table options w = (w2, r2) \<longrightarrow>
            data_of w2 = data_of w \<and> trace w2 = trace w @ issued w w2
            \<and> (\<forall>s \<in> set (issued w w2). \<not> is_mutation s \<and> \<not> is_fk_toggle s))"
proof -
  have 1: "data_of w' = data_of w \<and> trace w' = trace w @ issued w w'
    \<and> (\<forall>s \<in> set (issued w w'). \<not> is_mutation s \<and> \<not> is_fk_toggle s)"
    if dry: "arg_dry_run args" and run: "sync_mysql local_url prod_url args w = (w', r)"
  proof -
    have "w' = logging ERROR NotMySQLUrls w \<or> w' = logging ERROR ProdPort5432 w
        \<or> sync_mysql_run local_url prod_url args w = (w', r)"
      using dry run by (auto simp: sync_mysql_def split: if_splits)
    then have "data_of w' = data_of w
      \<and> (\<exists>new. trace w' = trace w @ new \<and> (\<forall>s \<in> set new. \<not> is_mutation s \<and> \<not> is_fk_toggle s))"
      using sync_mysql_run_dry_run [OF _ dry] by auto
    then show ?thesis by (auto simp: issued_def)
  qed
  have 2: "data_of w2 = data_of w \<and> trace w2 = trace w @ issued w w2
    \<and> (\<forall>s \<in> set (issued w w2). \<not> is_mutation s \<and> \<not> is_fk_toggle s)"
    if dry: "dry_run options"
      and run: "sync_table local_engine prod_engine local_table prod_table options w = (w2, r2)"
    using sync_table_dry_run_trace [OF run dry] sync_table_dry_run_data [OF run dry]
    by (auto simp: issued_def)
  from 1 2 show ?thesis by blast
qed

theorem dry_run_changes_nothing_witness:
  "arg_dry_run dry_run_args \<and> dry_run dry_run_options
   \<and> snd (sync_mysql ''mysql://local'' ''mysql://remote'' dry_run_args orders_world) = Inr ()
   \<and> (INFO, PlannedChanges ''orders'' 2 1)
        \<in> set (logs (fst (sync_mysql ''mysql://local'' ''mysql://remote'' dry_run_args orders_world)))
   \<and> data_of (fst (sync_mysql ''mysql://local'' ''mysql://remote'' dry_run_args orders_world))
        = data_of orders_world
   \<and> filter (\<lambda>s. is_mutation s \<or> is_fk_toggle s)
        (issued orders_world
           (fst (sync_mysql ''mysql://local'' ''mysql://remote'' dry_run_args orders_world))) = []
   \<and> data_of (fst (sync_table ''mysql://local'' ''mysql://remote'' orders orders dry_run_options
                     orders_world)) = data_of orders_world"
proof -
  let ?run = "sync_mysql ''mysql://local'' ''mysql://remote'' dry_run_args orders_world"
  let ?tab = "sync_table ''mysql://local'' ''mysql://remote'' orders orders dry_run_options orders_world"
  have h1: "arg_dry_run dry_run_args" by (simp add: dry_run_args_def)
  have h2: "dry_run dry_run_options" by (simp add: dry_run_options_def)
  have r1: "?run = (fst ?run, snd ?run)" and r2: "?tab = (fst ?tab, snd ?tab)" by simp_all
  have ok: "snd ?run = Inr ()" by code_simp
  have plan: "(INFO, PlannedChanges ''orders'' 2 1) \<in> set (logs (fst ?run))" by code_simp
  note th = dry_run_changes_nothing [of dry_run_args "''mysql://local''" "''mysql://remote''"
      orders_world "fst ?run" "snd ?run" dry_run_options "''mysql://local''" "''mysql://remote''"
      orders orders "fst ?tab" "snd ?tab"]
  from th h1 r1 have a: "data_of (fst ?run) = data_of orders_world"
    "\<forall>s \<in> set (issued orders_world (fst ?run)). \<not> is_mutation s \<and> \<not> is_fk_toggle s"
    by blast+
  from a(2) have c: "filter (\<lambda>s. is_mutation s \<or> is_fk_toggle s) (issued orders_world (fst ?run)) = []"
    by (simp add: filter_empty_conv)
  from th h2 r2 have b: "data_of (fst ?tab) = data_of orders_world" by blast
  from h1 h2 ok plan a(1) c b show ?thesis by blast
qed

section \<open>What \<open>insert_rows\<close> counts\<close>

lemma insert_ignore_all_present:
  "\<forall>r \<in> set payload. key_present pk r rs \<Longrightarrow> insert_ignore pk payload rs = rs"
  by (induction payload arbitrary: rs) simp_all

lemma length_insert_ignore: "length (insert_ignore pk payload rs) \<le> length rs + length payload"
proof (induction payload arbitrary: rs)
  case Nil
  show ?case by simp
next
  case (Cons r payload)
  have "length (insert_ignore pk payload (if key_present pk r rs then rs else rs @ [r]))
          \<le> length (if key_present pk r rs then rs else rs @ [r]) + length payload"
    by (rule Cons.IH)
  then show ?case by (simp split: if_splits)
qed

lemma insert_rows_result:
  assumes "insert_rows engine t rows ignore w = (w', Inr n)"
  shows "n = length rows" and "n = length (insert_payload t rows)"
    and "rows \<noteq> [] \<Longrightarrow> issued w w' = [Insert engine (tbl_name t) ignore (insert_payload t rows)]"
    and "ignore \<Longrightarrow> length (rows_of w' engine (tbl_name t)) \<le> length (rows_of w engine (tbl_name t)) + n"
  using assms length_insert_ignore [of "tbl_primary_key t" "insert_payload t rows" "rows_of w engine (tbl_name t)"]
  by (auto simp: insert_rows_def insert_payload_def execute_def issued_def set_rows_def Let_def
      split: if_splits option.splits)

lemma insert_rows_duplicates:
  assumes "rows \<noteq> []" and "\<not> faulty w (Insert engine (tbl_name t) True (insert_payload t rows))"
    and "\<forall>r \<in> set (insert_payload t rows).
           key_present (tbl_primary_key t) r (rows_of w engine (tbl_name t))"
  shows "snd (insert_rows engine t rows True w) = Inr (length rows)"
    and "rows_of (fst (insert_rows engine t rows True w)) = rows_of w"
  using assms insert_ignore_all_present [OF assms(3)]
  by (auto simp: insert_rows_def insert_payload_def execute_def set_rows_def Let_def)

text \<open>
  Claim C10. \<open>insert_rows\<close> returns the number of rows of its payload, which is the number
  of rows it was given: 0 for the empty list, without any statement; otherwise one
  \<open>INSERT\<close> with that payload is sent. With \<open>IGNORE\<close> the table grows by at most that
  number, and when every row of the payload has a key that the table already holds the
  table does not change at all while the number of rows given is still returned.
\<close>

theorem insert_rows_counts_payload:
  shows "insert_rows engine t [] ignore w = (w, Inr 0)
    \<and> (insert_rows engine t rows ignore w = (w', Inr n) \<longrightarrow>
          n = length rows \<and> n = length (insert_payload t rows)
          \<and> (rows \<noteq> [] \<longrightarrow>
                issued w w' = [Insert engine (tbl_name t) ignore (insert_payload t rows)])
          \<and> (ignore \<longrightarrow> length (rows_of w' engine (tbl_name t))
                            \<le> length (rows_of w engine (tbl_name t)) + n))
    \<and> (rows \<noteq> [] \<and> \<not> faulty w (Insert engine (tbl_name t) True (insert_payload t rows))
        \<and> (\<forall>r \<in> set (insert_payload t rows).
              key_present (tbl_primary_key t) r (rows_of w engine (tbl_name t))) \<longrightarrow>
          snd (insert_rows engine t rows True w) = Inr (length rows)
          \<and> rows_of (fst (insert_rows engine t rows True w)) = rows_of w)"
proof -
  have 1: "insert_rows engine t [] ignore w = (w, Inr 0)"
    by (simp add: insert_rows_def)
  from 1 insert_rows_result [of engine t rows ignore w w' n]
    insert_rows_duplicates [of rows w engine t]
  show ?thesis by blast
qed

theorem insert_rows_counts_payload_witness:
  "[order_row 2 ''b'', order_row 3 ''c''] \<noteq> []
   \<and> \<not> faulty orders_world (Insert ''mysql://remote'' ''orders'' True
          (insert_payload orders [order_row 2 ''b'', order_row 3 ''c'']))
   \<and> list_all (\<lambda>r. key_present [''id''] r (rows_of orders_world ''mysql://remote'' ''orders''))
        (insert_payload orders [order_row 2 ''b'', order_row 3 ''c''])
   \<and> snd (insert_rows ''mysql://remote'' orders [order_row 2 ''b'', order_row 3 ''c''] True
            orders_world) = Inr 2
   \<and> length (rows_of (fst (insert_rows ''mysql://remote'' orders
                [order_row 2 ''b'', order_row 3 ''c''] True orders_world)) ''mysql://remote'' ''orders'')
       = length (rows_of orders_world ''mysql://remote'' ''orders'')"
proof -
  let ?rows = "[order_row 2 ''b'', order_row 3 ''c'']"
  let ?run = "insert_rows ''mysql://remote'' orders ?rows True orders_world"
  have name: "tbl_name orders = ''orders''" and pk: "tbl_primary_key orders = [''id'']"
    by (simp_all add: orders_def)
  have h1: "?rows \<noteq> []" by simp
  have h2: "\<not> faulty orders_world (Insert ''mysql://remote'' ''orders'' True (insert_payload orders ?rows))"
    by (simp add: faulty_def orders_world_def empty_world_def)
  have h3: "list_all (\<lambda>r. key_present [''id''] r (rows_of orders_world ''mysql://remote'' ''orders''))
              (insert_payload orders ?rows)"
    by code_simp
  then have h3': "\<forall>r \<in> set (insert_payload orders ?rows).
      key_present [''id''] r (rows_of orders_world ''mysql://remote'' ''orders'')"
    by (simp add: list_all_iff)
  have run: "?run = (fst ?run, snd ?run)" by simp
  from insert_rows_counts_payload [of "''mysql://remote''" orders True orders_world ?rows
      "fst ?run" "length ?rows"] h1 h2 h3' name pk
  have "snd ?run = Inr (length ?rows)" "rows_of (fst ?run) = rows_of orders_world"
    by simp_all
  with h1 h2 h3 show ?thesis by simp
qed

section \<open>Signatures\<close>

lemma digit_char_not_space: "d < 16 \<Longrightarrow> \<not> is_space (digit_char d)"
proof -
  assume "d < 16"
  then have "digit_char d \<in> set ''0123456789abcdef''"
    unfolding digit_char_def by (intro nth_mem) simp
  moreover have "\<forall>c \<in> set ''0123456789abcdef''. \<not> is_space c"
    by (simp add: is_space_def)
  ultimately show ?thesis by blast
qed

lemma str_nat_last: "str_nat n \<noteq> [] \<and> \<not> is_space (last (str_nat n))"
proof (induction n rule: str_nat.induct)
  case (1 n)
  show ?case
    by (subst str_nat.simps, subst (2) str_nat.simps) (simp add: digit_char_not_space)
qed

lemma hex_digits_Nil [simp]: "hex_digits ds = [] \<longleftrightarrow> ds = []"
  by (cases ds) simp_all

lemma hex_digits_last: "ds \<noteq> [] \<Longrightarrow> \<not> is_space (last (hex_digits ds))"
  by (induction ds rule: hex_digits.induct) (simp_all add: digit_char_not_space)

lemma hexdigest_last: "hexdigest m x \<noteq> [] \<and> \<not> is_space (last (hexdigest m x))"
  unfolding hexdigest_def using hex_digits_last [of "take 32 (m x @ replicate 32 0)"] by simp

lemma strip_unchanged:
  assumes "s \<noteq> []" and "\<not> is_space (hd s)" and "\<not> is_space (last s)"
  shows "strip s = s"
proof -
  from assms(1,2) have 1: "dropWhile is_space s = s" by (cases s) simp_all
  from assms(1,3) have 2: "dropWhile is_space (rev s) = rev s"
    by (cases "rev s") (simp_all add: last_rev [symmetric] hd_rev)
  show ?thesis by (simp add: strip_def 1 2)
qed

lemma strip_Nil [simp]: "strip [] = []"
  by (simp add: strip_def)

lemma get_binlog_signature_shape:
  assumes "get_binlog_signature engine w = (w', Inr s)"
  shows "s = [] \<or> (take 7 s = ''binlog:'' \<and> strip s = s)"
proof -
  have "strip (''binlog:'' @ f @ '':'' @ str_nat p) = ''binlog:'' @ f @ '':'' @ str_nat p" for f p
    using str_nat_last [of p] by (intro strip_unchanged) (simp_all add: is_space_def)
  with assms show ?thesis
    by (auto simp: get_binlog_signature_def execute_def Let_def split: if_splits option.splits)
qed

lemma content_dynamic_signature_shape:
  assumes "content_dynamic_signature engine w = (w', s)"
  shows "s = [] \<or> (take 8 s = ''content:'' \<and> strip s = s)"
proof -
  have "strip (''content:'' @ hexdigest m x) = ''content:'' @ hexdigest m x" for m x
    using hexdigest_last [of m x] by (intro strip_unchanged) (simp_all add: is_space_def)
  with assms show ?thesis
    by (auto simp: content_dynamic_signature_def execute_def Let_def split: if_splits)
qed

lemma get_quick_signature_shape:
  assumes "get_quick_signature url ty w = (w', Inr s)"
  shows "strip s = s" and "s = [] \<or> take 7 s = ''binlog:'' \<or> take 8 s = ''content:''"
  using assms
  by (auto simp: get_quick_signature_def split: if_splits prod.splits sum.splits
      dest!: get_binlog_signature_shape content_dynamic_signature_shape)

text \<open>
  Claim C2 as stated fails: with no signature type selected, a server that reports no
  binary-log coordinates and has no tables makes both the binlog and the content strategy
  return the empty string, and the computation then raises \<open>ValueError\<close>; no quick
  fingerprint takes their place.
\<close>

theorem get_quick_signature_no_quick_fallback:
  "snd (get_binlog_signature ''mysql://local'' empty_world) = Inr []
   \<and> snd (content_dynamic_signature ''mysql://local''
            (fst (get_binlog_signature ''mysql://local'' empty_world))) = []
   \<and> snd (get_quick_signature ''mysql://local'' None empty_world) = Inl ValueError"
  by code_simp

text \<open>
  Claim C2 as amended. With no signature type selected \<open>get_quick_signature\<close> tries two
  strategies in the order binlog, content. A non-empty binlog signature is returned and
  the content strategy is not run; otherwise a non-empty content signature is returned;
  when both are empty the call raises \<open>ValueError\<close>. A failure to connect for the binlog
  query propagates. Whatever the selection, a signature that is returned is empty or
  starts with \<open>binlog:\<close> or \<open>content:\<close>: a quick fingerprint is never used.
\<close>

theorem get_quick_signature_priority:
  shows "(get_binlog_signature url w = (w1, Inl e) \<longrightarrow>
            get_quick_signature url None w = (w1, Inl e))
    \<and> (get_binlog_signature url w = (w1, Inr b) \<and> b \<noteq> [] \<longrightarrow>
            get_quick_signature url None w = (w1, Inr b))
    \<and> (get_binlog_signature url w = (w1, Inr []) \<and> content_dynamic_signature url w1 = (w2, c)
          \<and> c \<noteq> [] \<longrightarrow>
            get_quick_signature url None w = (w2, Inr c))
    \<and> (get_binlog_signature url w = (w1, Inr []) \<and> content_dynamic_signature url w1 = (w2, [])
          \<longrightarrow> get_quick_signature url None w = (w2, Inl ValueError))
    \<and> (get_quick_signature url signature_type w = (w3, Inr s) \<longrightarrow>
          s = [] \<or> take 7 s = ''binlog:'' \<or> take 8 s = ''content:'')"
  using get_quick_signature_shape(2) [of url signature_type w w3 s]
  by (auto simp: get_quick_signature_def)

theorem get_quick_signature_priority_witness:
  "snd (get_binlog_signature ''mysql://local'' binlog_world) = Inr ''binlog:binlog.000042:154''
   \<and> ''binlog:binlog.000042:154'' \<noteq> []
   \<and> snd (get_quick_signature ''mysql://local'' None binlog_world) = Inr ''binlog:binlog.000042:154''
   \<and> snd (get_binlog_signature ''mysql://local'' orders_world) = Inr []
   \<and> snd (content_dynamic_signature ''mysql://local''
            (fst (get_binlog_signature ''mysql://local'' orders_world))) \<noteq> []
   \<and> snd (get_quick_signature ''mysql://local'' None orders_world)
       = Inr (snd (content_dynamic_signature ''mysql://local''
                (fst (get_binlog_signature ''mysql://local'' orders_world))))
   \<and> snd (get_quick_signature ''mysql://local'' None empty_world) = Inl ValueError
   \<and> take 8 (snd (content_dynamic_signature ''mysql://local''
                (fst (get_binlog_signature ''mysql://local'' orders_world)))) = ''content:''"
proof -
  let ?u = "''mysql://local''"
  let ?b1 = "get_binlog_signature ?u binlog_world"
  let ?b2 = "get_binlog_signature ?u orders_world"
  let ?c2 = "content_dynamic_signature ?u (fst ?b2)"
  let ?b3 = "get_binlog_signature ?u empty_world"
  let ?c3 = "content_dynamic_signature ?u (fst ?b3)"
  have b1: "snd ?b1 = Inr ''binlog:binlog.000042:154''" by code_simp
  have b2: "snd ?b2 = Inr []" by code_simp
  have c2: "snd ?c2 \<noteq> []" by code_simp
  have b3: "snd ?b3 = Inr []" by code_simp
  have c3: "snd ?c3 = []" by code_simp
  have p1: "?b1 = (fst ?b1, Inr ''binlog:binlog.000042:154'')" using b1 by (simp add: prod_eq_iff)
  have p2: "?b2 = (fst ?b2, Inr [])" using b2 by (simp add: prod_eq_iff)
  have q2: "?c2 = (fst ?c2, snd ?c2)" by simp
  have p3: "?b3 = (fst ?b3, Inr [])" using b3 by (simp add: prod_eq_iff)
  have q3: "?c3 = (fst ?c3, [])" using c3 by (simp add: prod_eq_iff)
  have ne: "''binlog:binlog.000042:154'' \<noteq> []" by simp
  from get_quick_signature_priority [of ?u binlog_world "fst ?b1" DBError
      "''binlog:binlog.000042:154''" "fst ?c2" "snd ?c2" None "fst ?c2" "snd ?c2"] p1 ne
  have "get_quick_signature ?u None binlog_world = (fst ?b1, Inr ''binlog:binlog.000042:154'')"
    by blast
  then have r1: "snd (get_quick_signature ?u None binlog_world) = Inr ''binlog:binlog.000042:154''"
    by simp
  from get_quick_signature_priority [of ?u orders_world "fst ?b2" DBError "[]" "fst ?c2" "snd ?c2"
      None "fst ?c2" "snd ?c2"] p2 q2 c2
  have r2: "get_quick_signature ?u None orders_world = (fst ?c2, Inr (snd ?c2))"
    by blast
  from get_quick_signature_priority [of ?u empty_world "fst ?b3" DBError "[]" "fst ?c3" "[]"
      None "fst ?c3" "[]"] p3 q3
  have "get_quick_signature ?u None empty_world = (fst ?c3, Inl ValueError)"
    by blast
  then have r3: "snd (get_quick_signature ?u None empty_world) = Inl ValueError"
    by simp
  from get_quick_signature_priority [of ?u orders_world "fst ?b2" DBError "[]" "fst ?c2" "snd ?c2"
      None "fst ?c2" "snd ?c2"] r2 c2
  have "take 7 (snd ?c2) = ''binlog:'' \<or> take 8 (snd ?c2) = ''content:''"
    by blast
  moreover have "take 7 (snd ?c2) \<noteq> ''binlog:''" by code_simp
  ultimately have r4: "take 8 (snd ?c2) = ''content:''" by blast
  from b1 b2 c2 r1 r2 r3 r4 show ?thesis by (simp add: prod_eq_iff)
qed

section \<open>Detecting changes\<close>

lemma get_binlog_signature_data: "get_binlog_signature engine w = (w', r) \<Longrightarrow> data_of w' = data_of w"
  by (auto simp: get_binlog_signature_def split: prod.splits sum.splits option.splits
      dest!: execute_data)

lemma get_binlog_signature_env: "get_binlog_signature engine w = (w', r) \<Longrightarrow> env_of w' = env_of w"
  by (auto simp: get_binlog_signature_def split: prod.splits sum.splits option.splits
      dest!: execute_env)

lemma content_dynamic_signature_data:
  "content_dynamic_signature engine w = (w', s) \<Longrightarrow> data_of w' = data_of w"
  by (auto simp: content_dynamic_signature_def split: prod.splits sum.splits if_splits
      dest!: execute_data)

lemma content_dynamic_signature_env:
  "content_dynamic_signature engine w = (w', s) \<Longrightarrow> env_of w' = env_of w"
  by (auto simp: content_dynamic_signature_def split: prod.splits sum.splits if_splits
      dest!: execute_env)

lemma get_quick_signature_data:
  "get_quick_signature url ty w = (w', r) \<Longrightarrow> data_of w' = data_of w"
  by (auto simp: get_quick_signature_def split: prod.splits sum.splits if_splits
      dest!: get_binlog_signature_data content_dynamic_signature_data)

lemma get_quick_signature_env:
  "get_quick_signature url ty w = (w', r) \<Longrightarrow> env_of w' = env_of w"
  by (auto simp: get_quick_signature_def split: prod.splits sum.splits if_splits
      dest!: get_binlog_signature_env content_dynamic_signature_env)

text \<open>What \<open>load_last_signature\<close> reads from a given state file.\<close>

lemma load_last_signature_Some:
  "load_last_signature (Some f) w =
     (w, Inr (case files w f of None \<Rightarrow> [] | Some content \<Rightarrow> if unreadable w f then [] else strip content))"
  by (simp add: load_last_signature_def split: option.splits)

lemma save_current_signature_Some:
  "save_current_signature sig (Some f) w =
     (if unwritable w f then w else w\<lparr>files := (files w)(f \<mapsto> sig)\<rparr>, Inr ())"
  by (simp add: save_current_signature_def)

lemma state_file_step:
  assumes "(case state_file of None \<Rightarrow> get_state_file_for_database url w | Some f \<Rightarrow> (w, f)) = (w1, f)"
  shows "files w1 = files w" and "env_of w1 = env_of w" and "rows_of w1 = rows_of w"
    and "trace w1 = trace w" and "fk_checks w1 = fk_checks w"
  using assms
  by (auto simp: get_state_file_for_database_def Let_def env_of_def split: option.splits)

text \<open>
  Claim C7. \<open>has_database_changes\<close> returns true exactly when the signature computed now
  is a non-empty string and differs from what \<open>load_last_signature\<close> reads from the state
  file of the database; it returns false for an empty current signature. A missing or
  empty state file reads as the empty string, and a signature that \<open>save_current_signature\<close>
  has written to a writable and readable file reads back as itself.
\<close>

theorem has_database_changes_iff:
  assumes "(case state_file of None \<Rightarrow> get_state_file_for_database url w | Some f \<Rightarrow> (w, f)) = (w1, f)"
    and "load_last_signature (Some f) w = (w, Inr last_sig)"
  shows "(snd (has_database_changes url state_file signature_type w) = Inr True \<longleftrightarrow>
            (\<exists>w2 sig. get_quick_signature url signature_type w1 = (w2, Inr sig)
                \<and> sig \<noteq> [] \<and> sig \<noteq> last_sig))
    \<and> (snd (get_quick_signature url signature_type w1) = Inr [] \<longrightarrow>
          snd (has_database_changes url state_file signature_type w) = Inr False)
    \<and> (files w f = None \<or> files w f = Some [] \<longrightarrow> last_sig = [])
    \<and> (get_quick_signature url' ty' wa = (wb, Inr sig') \<and> \<not> unwritable wb f \<and> \<not> unreadable wb f
          \<longrightarrow> snd (load_last_signature (Some f) (fst (save_current_signature sig' (Some f) wb)))
                = Inr sig')"
proof -
  obtain w2 r where q: "get_quick_signature url signature_type w1 = (w2, r)"
    by (cases "get_quick_signature url signature_type w1")
  from get_quick_signature_data [OF q] get_quick_signature_env [OF q] state_file_step [OF assms(1)]
  have same: "files w2 = files w" "unreadable w2 = unreadable w"
    by (auto dest: data_of_fields env_of_fields)
  have last: "last_sig = (case files w f of None \<Rightarrow> []
                          | Some content \<Rightarrow> if unreadable w f then [] else strip content)"
    using assms(2) by (simp add: load_last_signature_Some)
  have load2: "load_last_signature (Some f) w2 = (w2, Inr last_sig)"
    by (simp add: load_last_signature_Some same last cong: option.case_cong)
  have run: "has_database_changes url state_file signature_type w =
      (case r of Inl e \<Rightarrow> (w2, Inl e) | Inr sig \<Rightarrow> (w2, Inr (sig \<noteq> [] \<and> sig \<noteq> last_sig)))"
    using assms(1) q load2 by (simp add: has_database_changes_def split: sum.splits)
  have 1: "snd (has_database_changes url state_file signature_type w) = Inr True \<longleftrightarrow>
            (\<exists>w2 sig. get_quick_signature url signature_type w1 = (w2, Inr sig)
                \<and> sig \<noteq> [] \<and> sig \<noteq> last_sig)"
    using run q by (cases r) auto
  have 2: "snd (get_quick_signature url signature_type w1) = Inr [] \<longrightarrow>
          snd (has_database_changes url state_file signature_type w) = Inr False"
    using run q by (cases r) auto
  have 3: "files w f = None \<or> files w f = Some [] \<longrightarrow> last_sig = []"
    using last by auto
  have 4: "get_quick_signature url' ty' wa = (wb, Inr sig') \<and> \<not> unwritable wb f \<and> \<not> unreadable wb f
          \<longrightarrow> snd (load_last_signature (Some f) (fst (save_current_signature sig' (Some f) wb)))
                = Inr sig'"
    using get_quick_signature_shape(1) [of url' ty' wa wb sig']
    by (auto simp: load_last_signature_Some save_current_signature_Some)
  from 1 2 3 4 show ?thesis by blast
qed

theorem has_database_changes_iff_witness:
  "files orders_world (snd (get_state_file_for_database ''mysql://local'' orders_world)) = None
   \<and> load_last_signature (Some (snd (get_state_file_for_database ''mysql://local'' orders_world)))
        orders_world = (orders_world, Inr [])
   \<and> snd (content_dynamic_signature ''mysql://local''
            (fst (get_state_file_for_database ''mysql://local'' orders_world))) \<noteq> []
   \<and> snd (has_database_changes ''mysql://local'' None (Some ''content'') orders_world) = Inr True
   \<and> snd (get_quick_signature ''mysql://local'' (Some ''content'')
            (fst (get_state_file_for_database ''mysql://local'' empty_world))) = Inr []
   \<and> snd (has_database_changes ''mysql://local'' None (Some ''content'') empty_world) = Inr False"
proof -
  let ?u = "''mysql://local''"
  let ?g = "get_state_file_for_database ?u orders_world"
  let ?c = "content_dynamic_signature ?u (fst ?g)"
  let ?e = "get_state_file_for_database ?u empty_world"
  have nofile: "files orders_world (snd ?g) = None"
    by (simp add: orders_world_def empty_world_def)
  have nofile0: "files empty_world (snd ?e) = None"
    by (simp add: empty_world_def)
  have h1: "(case None of None \<Rightarrow> get_state_file_for_database ?u orders_world | Some f \<Rightarrow> (orders_world, f))
              = (fst ?g, snd ?g)" by simp
  have h2: "load_last_signature (Some (snd ?g)) orders_world = (orders_world, Inr [])"
    using nofile by (simp add: load_last_signature_Some)
  have h1': "(case None of None \<Rightarrow> get_state_file_for_database ?u empty_world | Some f \<Rightarrow> (empty_world, f))
              = (fst ?e, snd ?e)" by simp
  have h2': "load_last_signature (Some (snd ?e)) empty_world = (empty_world, Inr [])"
    using nofile0 by (simp add: load_last_signature_Some)
  have sig: "snd ?c \<noteq> []" by code_simp
  have q: "get_quick_signature ?u (Some ''content'') (fst ?g) = (fst ?c, Inr (snd ?c))"
    by (simp add: get_quick_signature_def split: prod.splits)
  have empty: "snd (get_quick_signature ?u (Some ''content'') (fst ?e)) = Inr []" by code_simp
  from has_database_changes_iff [OF h1 h2, of "Some ''content''" ?u "Some ''content''" "fst ?g" "fst ?c" "snd ?c"]
    q sig
  have t: "snd (has_database_changes ?u None (Some ''content'') orders_world) = Inr True"
    by blast
  from has_database_changes_iff [OF h1' h2', of "Some ''content''" ?u "Some ''content''" "fst ?g" "fst ?c" "snd ?c"]
    empty
  have f: "snd (has_database_changes ?u None (Some ''content'') empty_world) = Inr False"
    by blast
  from nofile h2 sig t empty f show ?thesis by blast
qed

section \<open>The feedback guard of the two-way loop\<close>


















text \<open>
  The case that the amended claim leaves out. Lines 56 to 58 write whatever
  \<open>get_quick_signature\<close> returned; unlike \<open>write_current_signature\<close> they do not test
  \<open>if sig:\<close>. In \<open>outage_world\<close> the signature query on \<open>prod\<close> after the sync fails once,
  the signature is the empty string, both state files are overwritten with it, and the
  next change check of either side reports a change.
\<close>

lemma empty_signature_is_written:
  "snd (sync_side_round ''dev-to-prod'' ''mysql://dev'' ''mysql://prod'' outage_world) = Inr ()
   \<and> files (fst (sync_side_round ''dev-to-prod'' ''mysql://dev'' ''mysql://prod'' outage_world))
         ''.state/.sync_db_654ffac139d000000000.state'' = Some []
   \<and> files (fst (sync_side_round ''dev-to-prod'' ''mysql://dev'' ''mysql://prod'' outage_world))
         ''.state/.sync_db_4f20ffac139d00000000.state'' = Some []
   \<and> snd (has_database_changes ''mysql://prod'' None (Some ''content'')
            (fst (sync_side_round ''dev-to-prod'' ''mysql://dev'' ''mysql://prod'' outage_world)))
       = Inr True
   \<and> snd (has_database_changes ''mysql://dev'' None (Some ''content'')
            (fst (sync_side_round ''dev-to-prod'' ''mysql://dev'' ''mysql://prod'' outage_world)))
       = Inr True"
proof -
  let ?run = "sync_side_round ''dev-to-prod'' ''mysql://dev'' ''mysql://prod'' outage_world"
  have 1: "snd ?run = Inr ()" by code_simp
  have 2: "files (fst ?run) ''.state/.sync_db_654ffac139d000000000.state'' = Some []" by code_simp
  have 3: "files (fst ?run) ''.state/.sync_db_4f20ffac139d00000000.state'' = Some []" by code_simp
  have 4: "snd (has_database_changes ''mysql://prod'' None (Some ''content'') (fst ?run)) = Inr True"
    by code_simp
  have 5: "snd (has_database_changes ''mysql://dev'' None (Some ''content'') (fst ?run)) = Inr True"
    by code_simp
  from 1 2 3 4 5 show ?thesis by blast
qed

end
